theory Spec2Isabelle
  imports Complex_Main
begin

section \<open>The Seongsu dashboard script (dashboard.py) as a shallow embedding\<close>

text \<open>
  The script is a linear Streamlit page: it reads the sidebar inputs, loads and filters
  an uploaded boundary file, fetches one hour of population rows from the Seoul open
  data service, joins every row to the centroid of its census tract and hands the
  result to folium. Library calls (requests, pandas, geopandas, folium, streamlit) are
  modelled by what they return or raise on the data the script gives them; every
  exception the script can meet is a value of \<open>error\<close>, and a computation that may
  raise returns \<open>error + 'a\<close> with \<open>Inl\<close> for the exception.
\<close>

subsection \<open>Exceptions and sequencing\<close>

datatype error =
    KeyError string        \<comment> \<open>a missing dict key, DataFrame column or secret\<close>
  | IndexError             \<comment> \<open>\<open>.iloc[0]\<close> on an empty selection\<close>
  | ValueError             \<comment> \<open>\<open>int(...)\<close> of something that is no integer literal\<close>
  | OverflowError          \<comment> \<open>\<open>/\<close> of two integers with a quotient too large for a double\<close>
  | AttributeError         \<comment> \<open>\<open>.get\<close> on a JSON value that is no object\<close>
  | HTTPError nat          \<comment> \<open>\<open>raise_for_status\<close> on a 4xx or 5xx status\<close>
  | JSONDecodeError        \<comment> \<open>\<open>resp.json()\<close> on a body that is not JSON\<close>
  | ConnectionError        \<comment> \<open>\<open>requests.get\<close> could not reach the service\<close>
  | FormatError            \<comment> \<open>\<open>gpd.read_file\<close> could not parse the upload\<close>
  | OutsideModel           \<comment> \<open>a value of a shape the tables below do not represent\<close>

text \<open>One statement after another: the first exception ends the computation.\<close>

definition bind_err :: "error + 'a \<Rightarrow> ('a \<Rightarrow> error + 'b) \<Rightarrow> error + 'b" where
  "bind_err m f = (case m of Inl e \<Rightarrow> Inl e | Inr v \<Rightarrow> f v)"

text \<open>
  A list comprehension, or a \<open>for\<close> loop that appends one element per iteration:
  the element expression is evaluated from the first row to the last, and the first
  exception leaves the loop with nothing built.
\<close>

fun for_each :: "('a \<Rightarrow> error + 'b) \<Rightarrow> 'a list \<Rightarrow> error + 'b list" where
  "for_each f [] = Inr []"
| "for_each f (x # xs) =
     (case f x of
        Inl e \<Rightarrow> Inl e
      | Inr y \<Rightarrow> (case for_each f xs of Inl e \<Rightarrow> Inl e | Inr ys \<Rightarrow> Inr (y # ys)))"

subsection \<open>Tables\<close>

text \<open>
  A table row is a finite map from field names to string values, kept as an association
  list read with \<open>map_of\<close>; a field that a row does not have is pandas' NaN. The open
  data service sends every field as a JSON string, and the tract code of a boundary
  file is a string property; numeric or nested cells are outside this model. A
  \<open>DataFrame\<close> knows its column labels apart from its rows, since selecting a column
  that is no label raises \<open>KeyError\<close> whatever the rows hold. Python strings are
  sequences of code points and \<open>string\<close> is a list of 8-bit characters: the model
  covers ASCII content, which is what tract codes and counts are.
\<close>

type_synonym cells = "(string \<times> string) list"

record DataFrame =
  columns :: "string list"
  rows :: "cells list"

text \<open>
  A boundary record is a row of the GeoDataFrame: its properties and its geometry. The
  geometry type is left open; its centroid is computed by the geometry library and
  enters the join as a function from geometries to points.
\<close>

record 'g boundary =
  props :: cells
  geometry :: 'g

record 'g GeoDataFrame =
  gcolumns :: "string list"
  grows :: "'g boundary list"

record point =
  pt_x :: real   \<comment> \<open>\<open>.x\<close>, the longitude\<close>
  pt_y :: real   \<comment> \<open>\<open>.y\<close>, the latitude\<close>

subsection \<open>The allow-list and the prefix filter (lines 20, 40, 59)\<close>

definition VALID_PREFIXES :: "string set" where
  "VALID_PREFIXES = {''1104065'', ''1104066'', ''1104067'', ''1104068''}"

text \<open>
  \<open>col.str[:7].isin(VALID_PREFIXES)\<close> for one cell: a string is cut to its first
  seven characters (all of it when shorter) and looked up in the set; NaN stays NaN
  under \<open>.str\<close> and is not in the set.
\<close>

definition str7_isin :: "string option \<Rightarrow> bool" where
  "str7_isin c = (case c of None \<Rightarrow> False | Some s \<Rightarrow> take 7 s \<in> VALID_PREFIXES)"

text \<open>Line 40: \<open>gdf = gdf[gdf["OA_CD"].str[:7].isin(VALID_PREFIXES)]\<close>.\<close>

definition filter_gdf :: "'g GeoDataFrame \<Rightarrow> error + 'g GeoDataFrame" where
  "filter_gdf g =
     (if ''OA_CD'' \<in> set (gcolumns g)
      then Inr (g\<lparr>grows := filter (\<lambda>b. str7_isin (map_of (props b) ''OA_CD'')) (grows g)\<rparr>)
      else Inl (KeyError ''OA_CD''))"

text \<open>Line 59: \<open>df = df[df["OA_CD"].str[:7].isin(VALID_PREFIXES)]\<close>.\<close>

definition filter_df :: "DataFrame \<Rightarrow> error + DataFrame" where
  "filter_df d =
     (if ''OA_CD'' \<in> set (columns d)
      then Inr (d\<lparr>rows := filter (\<lambda>r. str7_isin (map_of r ''OA_CD'')) (rows d)\<rparr>)
      else Inl (KeyError ''OA_CD''))"

subsection \<open>The HTTP response and its JSON body\<close>

datatype json =
    JNull
  | JBool bool
  | JNum int
  | JStr string
  | JArr "json list"
  | JObj "(string \<times> json) list"

record response =
  status_code :: nat
  body :: "json option"   \<comment> \<open>\<open>None\<close>: the body is not JSON\<close>

text \<open>\<open>resp.raise_for_status()\<close>: requests raises on a client or server error status.\<close>

definition raise_for_status :: "response \<Rightarrow> error + unit" where
  "raise_for_status resp =
     (if 400 \<le> status_code resp \<and> status_code resp < 600
      then Inl (HTTPError (status_code resp)) else Inr ())"

text \<open>\<open>resp.json()\<close>.\<close>

definition resp_json :: "response \<Rightarrow> error + json" where
  "resp_json resp = (case body resp of None \<Rightarrow> Inl JSONDecodeError | Some j \<Rightarrow> Inr j)"

text \<open>\<open>v.get(key, default)\<close>: only a dict has the method.\<close>

fun py_get :: "json \<Rightarrow> string \<Rightarrow> json \<Rightarrow> error + json" where
  "py_get (JObj kvs) k dflt = (case map_of kvs k of None \<Rightarrow> Inr dflt | Some v \<Rightarrow> Inr v)"
| "py_get _ k dflt = Inl AttributeError"

text \<open>
  \<open>pd.DataFrame(items)\<close>. A list of records becomes one row per record; the column
  labels are the keys of the records in order of first appearance, so the empty list
  gives a frame with no rows and no columns. \<open>None\<close> gives the same empty frame, and a
  scalar is refused by the constructor. Records with a cell that is no string, lists of
  anything but records, and a dict in place of the list are not represented
  (\<open>OutsideModel\<close>). A \<open>JObj\<close> holds the items of the parsed dict, whose keys are
  distinct.
\<close>

fun as_record :: "json \<Rightarrow> cells option" where
  "as_record (JObj kvs) =
     those (map (\<lambda>kv. case snd kv of JStr s \<Rightarrow> Some (fst kv, s) | _ \<Rightarrow> None) kvs)"
| "as_record _ = None"

definition first_seen :: "'a list \<Rightarrow> 'a list" where
  "first_seen xs = rev (remdups (rev xs))"

definition mk_DataFrame :: "json \<Rightarrow> error + DataFrame" where
  "mk_DataFrame items =
     (case items of
        JArr xs \<Rightarrow>
          (case those (map as_record xs) of
             None \<Rightarrow> Inl OutsideModel
           | Some rs \<Rightarrow> Inr \<lparr>columns = first_seen (concat (map (map fst) rs)), rows = rs\<rparr>)
      | JNull \<Rightarrow> Inr \<lparr>columns = [], rows = []\<rparr>
      | JObj kvs \<Rightarrow> Inl OutsideModel
      | _ \<Rightarrow> Inl ValueError)"

subsection \<open>fetch_data (lines 46 to 60)\<close>

definition fetch_url :: "string \<Rightarrow> string \<Rightarrow> string \<Rightarrow> string" where
  "fetch_url API_KEY date_str hour_str =
     ''http://openapi.seoul.go.kr:8088/'' @ API_KEY @ ''/json/'' @
     ''TEMP_FOREIGNER/1/1000/'' @ date_str @ ''/'' @ hour_str @ ''/''"

text \<open>
  The body of \<open>fetch_data\<close>. \<open>http_get\<close> is the remote service as \<open>requests.get\<close>
  sees it: for a URL, a response or the exception of a failed connection.
\<close>

definition fetch_data ::
  "string \<Rightarrow> (string \<Rightarrow> error + response) \<Rightarrow> string \<Rightarrow> string \<Rightarrow> error + DataFrame" where
  "fetch_data API_KEY http_get date_str hour_str =
     bind_err (http_get (fetch_url API_KEY date_str hour_str)) (\<lambda>resp.
     bind_err (raise_for_status resp) (\<lambda>_.
     bind_err (resp_json resp) (\<lambda>j.
     bind_err (py_get j ''TEMP_FOREIGNER'' (JObj [])) (\<lambda>env.
     bind_err (py_get env ''row'' (JArr [])) (\<lambda>items.
     bind_err (mk_DataFrame items) (\<lambda>df.
     filter_df df))))))"

subsection \<open>The cache in front of fetch_data (line 45)\<close>

text \<open>
  The world the script runs in: the entries of the result cache, newest first, each with
  the time it was stored, and the URLs requested so far, one for every execution of the
  body of \<open>fetch_data\<close> (which calls \<open>requests.get\<close> exactly once, first thing).
\<close>

record world =
  cache :: "((string \<times> string) \<times> (int \<times> DataFrame)) list"
  requests :: "string list"

definition ttl :: int where
  "ttl = 3600"

text \<open>
  Modelled from the spec: \<open>st.cache_data\<close> is Streamlit's code, not this
  repository's; the decorator of line 45 only sets its time to live, in seconds. The
  spec (4.2, 9) gives the behaviour: a store keyed by (date, hour) holding the filtered
  result and the time it was stored, with the expiry checked when the store is read.
  \<open>cache_read\<close> is that read: the stored result while it is younger than the time
  to live.
\<close>

definition cache_read :: "int \<Rightarrow> world \<Rightarrow> string \<times> string \<Rightarrow> DataFrame option" where
  "cache_read now w key =
     (case map_of (cache w) key of
        None \<Rightarrow> None
      | Some (t, df) \<Rightarrow> if now < t + ttl then Some df else None)"

text \<open>
  Modelled from the spec: the decorated \<open>fetch_data\<close>. A hit returns the stored
  result and makes no network call; an absent or expired entry runs the body (one
  request) and stores what it returns under (date, hour) with the current time; a call
  that raises stores nothing.
\<close>

definition fetch_data_cached ::
  "string \<Rightarrow> (string \<Rightarrow> error + response) \<Rightarrow> int \<Rightarrow> string \<Rightarrow> string \<Rightarrow> world
     \<Rightarrow> (error + DataFrame) \<times> world" where
  "fetch_data_cached API_KEY http_get now date_str hour_str w =
     (case cache_read now w (date_str, hour_str) of
        Some df \<Rightarrow> (Inr df, w)
      | None \<Rightarrow>
          (let w1 = w\<lparr>requests := requests w @ [fetch_url API_KEY date_str hour_str]\<rparr> in
           case fetch_data API_KEY http_get date_str hour_str of
             Inl e \<Rightarrow> (Inl e, w1)
           | Inr df \<Rightarrow> (Inr df, w1\<lparr>cache := ((date_str, hour_str), (now, df)) # cache w1\<rparr>)))"

subsection \<open>Formatting and parsing integers\<close>

text \<open>\<open>f"{h:02d}"\<close> for a natural number: its decimal digits, zero-padded to width two.\<close>

fun decimal :: "nat \<Rightarrow> string" where
  "decimal n =
     (if n < 10 then [''0123456789'' ! n]
      else decimal (n div 10) @ [''0123456789'' ! (n mod 10)])"

declare decimal.simps [simp del]

definition fmt_02d :: "nat \<Rightarrow> string" where
  "fmt_02d n = replicate (2 - length (decimal n)) CHR ''0'' @ decimal n"

text \<open>
  \<open>int(v)\<close> for a cell. NaN cannot be converted. Around the literal \<open>int\<close> skips
  the whitespace of the C locale (tab, line feed, vertical tab, form feed, carriage
  return, space) and no other character; what remains must be an optional sign
  followed by decimal digits, where single underscores may stand between digits. A
  literal of more than 4300 digits is refused (the interpreter's default limit, counting
  digits only).
\<close>

definition is_space :: "char \<Rightarrow> bool" where
  "is_space c = (let n = (of_char c :: nat) in (9 \<le> n \<and> n \<le> 13) \<or> n = 32)"

definition py_strip :: "string \<Rightarrow> string" where
  "py_strip s = rev (dropWhile is_space (rev (dropWhile is_space s)))"

definition digit_of :: "char \<Rightarrow> nat option" where
  "digit_of c = (let n = (of_char c :: nat) in if 48 \<le> n \<and> n \<le> 57 then Some (n - 48) else None)"

fun more_digits :: "nat \<Rightarrow> string \<Rightarrow> nat option" where
  "more_digits acc [] = Some acc"
| "more_digits acc [c] =
     (case digit_of c of None \<Rightarrow> None | Some v \<Rightarrow> Some (10 * acc + v))"
| "more_digits acc (c # d # ds) =
     (if c = CHR ''_''
      then (case digit_of d of None \<Rightarrow> None | Some v \<Rightarrow> more_digits (10 * acc + v) ds)
      else (case digit_of c of None \<Rightarrow> None | Some v \<Rightarrow> more_digits (10 * acc + v) (d # ds)))"

definition unsigned_literal :: "string \<Rightarrow> nat option" where
  "unsigned_literal s =
     (case s of
        [] \<Rightarrow> None
      | c # cs \<Rightarrow> (case digit_of c of None \<Rightarrow> None | Some v \<Rightarrow> more_digits v cs))"

definition int_literal :: "string \<Rightarrow> int option" where
  "int_literal s =
     (case s of
        [] \<Rightarrow> None
      | c # cs \<Rightarrow>
          if c = CHR ''-'' then map_option (\<lambda>n. - int n) (unsigned_literal cs)
          else if c = CHR ''+'' then map_option int (unsigned_literal cs)
          else map_option int (unsigned_literal s))"

definition int_max_str_digits :: nat where
  "int_max_str_digits = 4300"

definition digit_count :: "string \<Rightarrow> nat" where
  "digit_count s = length (filter (\<lambda>c. digit_of c \<noteq> None) s)"

definition py_int :: "string option \<Rightarrow> error + int" where
  "py_int v =
     (case v of
        None \<Rightarrow> Inl ValueError
      | Some s \<Rightarrow>
          if int_max_str_digits < digit_count (py_strip s) then Inl ValueError
          else (case int_literal (py_strip s) of None \<Rightarrow> Inl ValueError | Some n \<Rightarrow> Inr n))"

text \<open>
  \<open>a / b\<close> for two integers is the quotient rounded to the nearest double, and raises
  \<open>OverflowError\<close> when that is beyond the largest double, which is when the
  magnitude of the quotient reaches \<open>2^1024 - 2^970\<close>.
\<close>

definition truediv_overflows :: "int \<Rightarrow> int \<Rightarrow> bool" where
  "truediv_overflows a b = (2 ^ 1024 - 2 ^ 970 \<le> \<bar>real_of_int a / real_of_int b\<bar>)"

subsection \<open>The tract join (lines 93 to 94, 109 to 111, 122 to 124)\<close>

text \<open>\<open>row[c]\<close> for a row of \<open>df.iterrows()\<close>: the row is indexed by the frame's columns.\<close>

definition row_get :: "string list \<Rightarrow> cells \<Rightarrow> string \<Rightarrow> error + string option" where
  "row_get cols r c = (if c \<in> set cols then Inr (map_of r c) else Inl (KeyError c))"

text \<open>Elementwise \<open>==\<close> of two cells: NaN equals nothing.\<close>

definition cell_eq :: "string option \<Rightarrow> string option \<Rightarrow> bool" where
  "cell_eq a b = (case a of None \<Rightarrow> False | Some s \<Rightarrow> (case b of None \<Rightarrow> False | Some t \<Rightarrow> s = t))"

text \<open>
  \<open>gdf[gdf["OA_CD"] == row["OA_CD"]].geometry.centroid.iloc[0]\<close>: the boundary records
  with the row's tract code, in the order of the boundary set; the centroid of each; the
  first of them. \<open>.iloc[0]\<close> on an empty selection raises \<open>IndexError\<close>.
\<close>

definition tract_centroid ::
  "('g \<Rightarrow> point) \<Rightarrow> 'g GeoDataFrame \<Rightarrow> string list \<Rightarrow> cells \<Rightarrow> error + point" where
  "tract_centroid centroid gdf cols r =
     (if ''OA_CD'' \<in> set (gcolumns gdf)
      then bind_err (row_get cols r ''OA_CD'') (\<lambda>v.
        case filter (\<lambda>b. cell_eq (map_of (props b) ''OA_CD'') v) (grows gdf) of
          [] \<Rightarrow> Inl IndexError
        | b # _ \<Rightarrow> Inr (centroid (geometry b)))
      else Inl (KeyError ''OA_CD''))"

subsection \<open>The three overlays (lines 91 to 134)\<close>

text \<open>
  A circle marker: where it stands, its radius and the two fields its popup shows (the
  tract code and the raw count; the popup's fixed labels, the colour and the fill are
  constants of the script and left out). The radius is \<open>max(int(count) / 50, 3)\<close>;
  Python divides two integers into a double, the model into a real number, and the
  division raises where the double would be out of range.
\<close>

record marker =
  location :: "real \<times> real"
  radius :: real
  popup :: "string \<times> string"

definition marker_radius :: "int \<Rightarrow> real" where
  "marker_radius weight = max (real_of_int weight / 50) 3"

definition fmt_cell :: "string option \<Rightarrow> string" where
  "fmt_cell c = (case c of None \<Rightarrow> ''nan'' | Some s \<Rightarrow> s)"

text \<open>One iteration of the loop of lines 92 to 105.\<close>

definition marker_row ::
  "('g \<Rightarrow> point) \<Rightarrow> 'g GeoDataFrame \<Rightarrow> string list \<Rightarrow> cells \<Rightarrow> error + marker" where
  "marker_row centroid gdf cols r =
     bind_err (tract_centroid centroid gdf cols r) (\<lambda>c.
     bind_err (row_get cols r ''TOT_LVPOP_CO'') (\<lambda>v.
     bind_err (py_int v) (\<lambda>weight.
     bind_err (if truediv_overflows weight 50 then Inl OverflowError
               else Inr (marker_radius weight)) (\<lambda>rad.
     bind_err (row_get cols r ''OA_CD'') (\<lambda>p1.
     bind_err (row_get cols r ''TOT_LVPOP_CO'') (\<lambda>p2.
     Inr \<lparr>location = (pt_y c, pt_x c), radius = rad,
          popup = (fmt_cell p1, fmt_cell p2)\<rparr>))))))"

definition point_markers ::
  "('g \<Rightarrow> point) \<Rightarrow> 'g GeoDataFrame \<Rightarrow> DataFrame \<Rightarrow> error + marker list" where
  "point_markers centroid gdf df = for_each (marker_row centroid gdf (columns df)) (rows df)"

text \<open>
  One element of the comprehensions of lines 108 to 113 and 120 to 127 (the same
  expression in both): latitude, longitude, weight. The tract is looked up once for
  each coordinate.
\<close>

type_synonym heat_point = "real \<times> real \<times> int"

definition heat_row ::
  "('g \<Rightarrow> point) \<Rightarrow> 'g GeoDataFrame \<Rightarrow> string list \<Rightarrow> cells \<Rightarrow> error + heat_point" where
  "heat_row centroid gdf cols r =
     bind_err (tract_centroid centroid gdf cols r) (\<lambda>c1.
     bind_err (tract_centroid centroid gdf cols r) (\<lambda>c2.
     bind_err (row_get cols r ''TOT_LVPOP_CO'') (\<lambda>v.
     bind_err (py_int v) (\<lambda>weight.
     Inr (pt_y c1, pt_x c2, weight)))))"

definition heat_data ::
  "('g \<Rightarrow> point) \<Rightarrow> 'g GeoDataFrame \<Rightarrow> DataFrame \<Rightarrow> error + heat_point list" where
  "heat_data centroid gdf df = for_each (heat_row centroid gdf (columns df)) (rows df)"

text \<open>The loop of lines 117 to 128 over the hours still to do, with \<open>all_heat\<close> so far.\<close>

fun time_heat_loop ::
  "string \<Rightarrow> (string \<Rightarrow> error + response) \<Rightarrow> int \<Rightarrow> ('g \<Rightarrow> point) \<Rightarrow> 'g GeoDataFrame \<Rightarrow> string
     \<Rightarrow> nat list \<Rightarrow> heat_point list list \<Rightarrow> world \<Rightarrow> (error + heat_point list list) \<times> world" where
  "time_heat_loop API_KEY http_get now centroid gdf date_str [] all_heat w = (Inr all_heat, w)"
| "time_heat_loop API_KEY http_get now centroid gdf date_str (h # hs) all_heat w =
     (case fetch_data_cached API_KEY http_get now date_str (fmt_02d h) w of
        (Inl e, w1) \<Rightarrow> (Inl e, w1)
      | (Inr df_h, w1) \<Rightarrow>
          (case for_each (heat_row centroid gdf (columns df_h)) (rows df_h) of
             Inl e \<Rightarrow> (Inl e, w1)
           | Inr layer \<Rightarrow>
               time_heat_loop API_KEY http_get now centroid gdf date_str hs (all_heat @ [layer]) w1))"

record heat_map_with_time =
  layers :: "heat_point list list"
  index :: "string list"
  auto_play :: bool
  max_opacity :: real

datatype overlay =
    Markers "marker list"
  | HeatMap "heat_point list"
  | HeatMapWithTime heat_map_with_time

datatype viz_type = Points | Heat | TimeHeat

text \<open>Lines 91 to 134: the branch on the selected visualisation.\<close>

definition build_overlay ::
  "string \<Rightarrow> (string \<Rightarrow> error + response) \<Rightarrow> int \<Rightarrow> ('g \<Rightarrow> point) \<Rightarrow> 'g GeoDataFrame \<Rightarrow> string
     \<Rightarrow> viz_type \<Rightarrow> DataFrame \<Rightarrow> world \<Rightarrow> (error + overlay) \<times> world" where
  "build_overlay API_KEY http_get now centroid gdf date_str viz df w =
     (case viz of
        Points \<Rightarrow>
          (case point_markers centroid gdf df of
             Inl e \<Rightarrow> (Inl e, w) | Inr ms \<Rightarrow> (Inr (Markers ms), w))
      | Heat \<Rightarrow>
          (case heat_data centroid gdf df of
             Inl e \<Rightarrow> (Inl e, w) | Inr pts \<Rightarrow> (Inr (HeatMap pts), w))
      | TimeHeat \<Rightarrow>
          (case time_heat_loop API_KEY http_get now centroid gdf date_str [0..<24] [] w of
             (Inl e, w1) \<Rightarrow> (Inl e, w1)
           | (Inr all_heat, w1) \<Rightarrow>
               (Inr (HeatMapWithTime
                  \<lparr>layers = all_heat, index = map fmt_02d [0..<24],
                   auto_play = False, max_opacity = 0.8\<rparr>), w1)))"

subsection \<open>The page (the whole script, top to bottom)\<close>

text \<open>
  What the sidebar hands to one run of the script: the stored credential if there is
  one, the date of the date picker as \<open>strftime("%Y%m%d")\<close> prints it, the hour of
  the slider, the selected visualisation and the uploaded file if there is one.
\<close>

record 'f inputs =
  secret_SEOUL_API_KEY :: "string option"
  date_input :: string
  hour_input :: nat
  viz_input :: viz_type
  uploaded_file :: "'f option"

text \<open>
  The map handed to \<open>st_folium\<close>: the outline layer drawn from the filtered boundary
  set, and the overlay of the selected visualisation.
\<close>

record 'g folium_map =
  boundary_layer :: "'g GeoDataFrame"
  overlay_layer :: overlay

text \<open>
  What one run puts on the page, in order (the sidebar widgets, which every run draws,
  are left out; fixed texts are not spelled out), and how the run ended: it reached the
  last line, it called \<open>st.stop()\<close>, or an exception went uncaught.
\<close>

datatype 'g element =
    Warning                          \<comment> \<open>line 35: the request to upload a GeoJSON file\<close>
  | Title                            \<comment> \<open>line 139\<close>
  | Markdown string string viz_type  \<comment> \<open>line 140: date, hour, visualisation\<close>
  | FoliumMap "'g folium_map"        \<comment> \<open>line 144\<close>
  | Subheader                        \<comment> \<open>line 146\<close>
  | RecordCount nat                  \<comment> \<open>line 147\<close>
  | SummaryTable DataFrame           \<comment> \<open>lines 148 to 153\<close>

datatype ending = Completed | Stopped | Raised error

record 'g page =
  elements :: "'g element list"
  ending :: ending

text \<open>\<open>df[[c1, ..., cn]]\<close>: every label must be a column.\<close>

definition select_columns :: "DataFrame \<Rightarrow> string list \<Rightarrow> error + DataFrame" where
  "select_columns d cols =
     (case filter (\<lambda>c. c \<notin> set (columns d)) cols of
        [] \<Rightarrow> Inr \<lparr>columns = cols, rows = map (filter (\<lambda>kv. fst kv \<in> set cols)) (rows d)\<rparr>
      | c # _ \<Rightarrow> Inl (KeyError c))"

definition summary_columns :: "string list" where
  "summary_columns =
     [''STDR_DE_ID'', ''TMZON_PD_SE'', ''ADSTRD_CODE_SE'',
      ''OA_CD'', ''TOT_LVPOP_CO'', ''CHINA_STAYPOP_CO'', ''OTHER_STAYPOP_CO'']"

text \<open>
  One run of the script. \<open>read_file\<close> is \<open>gpd.read_file\<close> on the upload,
  \<open>centroid\<close> the geometry library's centroid, \<open>http_get\<close> the remote service and
  \<open>now\<close> the clock the cache reads.
\<close>

definition run ::
  "('f \<Rightarrow> error + 'g GeoDataFrame) \<Rightarrow> ('g \<Rightarrow> point) \<Rightarrow> (string \<Rightarrow> error + response) \<Rightarrow> int
     \<Rightarrow> 'f inputs \<Rightarrow> world \<Rightarrow> 'g page \<times> world" where
  "run read_file centroid http_get now inp w =
     (case secret_SEOUL_API_KEY inp of
        None \<Rightarrow> (\<lparr>elements = [], ending = Raised (KeyError ''SEOUL_API_KEY'')\<rparr>, w)
      | Some API_KEY \<Rightarrow>
     (case uploaded_file inp of
        None \<Rightarrow> (\<lparr>elements = [Warning], ending = Stopped\<rparr>, w)
      | Some file \<Rightarrow>
     (case bind_err (read_file file) filter_gdf of
        Inl e \<Rightarrow> (\<lparr>elements = [], ending = Raised e\<rparr>, w)
      | Inr gdf \<Rightarrow>
     (let date_str = date_input inp; hour_str = fmt_02d (hour_input inp) in
      case fetch_data_cached API_KEY http_get now date_str hour_str w of
        (Inl e, w1) \<Rightarrow> (\<lparr>elements = [], ending = Raised e\<rparr>, w1)
      | (Inr df, w1) \<Rightarrow>
     (case build_overlay API_KEY http_get now centroid gdf date_str (viz_input inp) df w1 of
        (Inl e, w2) \<Rightarrow> (\<lparr>elements = [], ending = Raised e\<rparr>, w2)
      | (Inr ov, w2) \<Rightarrow>
     (let shown =
        [Title, Markdown date_str hour_str (viz_input inp),
         FoliumMap \<lparr>boundary_layer = gdf, overlay_layer = ov\<rparr>,
         Subheader, RecordCount (length (rows df))] in
      case select_columns df summary_columns of
        Inl e \<Rightarrow> (\<lparr>elements = shown, ending = Raised e\<rparr>, w2)
      | Inr table \<Rightarrow>
          (\<lparr>elements = shown @ [SummaryTable table], ending = Completed\<rparr>, w2)))))))"

subsection \<open>A small deployment to run the definitions on\<close>

text \<open>
  Geometries are numbered; the centroid of geometry \<open>n\<close> is put at longitude \<open>n\<close>
  and latitude \<open>n + 100\<close>. The upload holds tract 1104065010001 twice (geometries 1 and
  2), tract 1104066020002 once and one tract of another district.
\<close>

definition ex_centroid :: "nat \<Rightarrow> point" where
  "ex_centroid n = \<lparr>pt_x = real n, pt_y = real n + 100\<rparr>"

definition ex_upload :: "nat GeoDataFrame" where
  "ex_upload =
     \<lparr>gcolumns = [''OA_CD''],
      grows =
        [\<lparr>props = [(''OA_CD'', ''1104065010001'')], geometry = 1\<rparr>,
         \<lparr>props = [(''OA_CD'', ''1104065010001'')], geometry = 2\<rparr>,
         \<lparr>props = [(''OA_CD'', ''1104066020002'')], geometry = 3\<rparr>,
         \<lparr>props = [(''OA_CD'', ''1101053010001'')], geometry = 4\<rparr>]\<rparr>"

definition ex_gdf :: "nat GeoDataFrame" where
  "ex_gdf =
     \<lparr>gcolumns = [''OA_CD''],
      grows =
        [\<lparr>props = [(''OA_CD'', ''1104065010001'')], geometry = 1\<rparr>,
         \<lparr>props = [(''OA_CD'', ''1104065010001'')], geometry = 2\<rparr>,
         \<lparr>props = [(''OA_CD'', ''1104066020002'')], geometry = 3\<rparr>]\<rparr>"

text \<open>Three rows as the service sends them: two of the district, one of another.\<close>

definition ex_row :: "string \<Rightarrow> string \<Rightarrow> cells" where
  "ex_row tract count =
     [(''STDR_DE_ID'', ''20250905''), (''TMZON_PD_SE'', ''14''), (''ADSTRD_CODE_SE'', ''11040650''),
      (''OA_CD'', tract), (''TOT_LVPOP_CO'', count),
      (''CHINA_STAYPOP_CO'', ''1''), (''OTHER_STAYPOP_CO'', ''2'')]"

definition ex_json_row :: "string \<Rightarrow> string \<Rightarrow> json" where
  "ex_json_row tract count = JObj (map (\<lambda>kv. (fst kv, JStr (snd kv))) (ex_row tract count))"

definition ex_response :: response where
  "ex_response =
     \<lparr>status_code = 200,
      body = Some (JObj [(''TEMP_FOREIGNER'',
        JObj [(''list_total_count'', JNum 3),
              (''RESULT'', JObj [(''CODE'', JStr ''INFO-000''), (''MESSAGE'', JStr ''OK'')]),
              (''row'', JArr [ex_json_row ''1104065010001'' ''120'',
                              ex_json_row ''1104066020002'' ''500'',
                              ex_json_row ''1101053010001'' ''7''])])])\<rparr>"

definition ex_df :: DataFrame where
  "ex_df =
     \<lparr>columns = [''STDR_DE_ID'', ''TMZON_PD_SE'', ''ADSTRD_CODE_SE'', ''OA_CD'', ''TOT_LVPOP_CO'',
                 ''CHINA_STAYPOP_CO'', ''OTHER_STAYPOP_CO''],
      rows = [ex_row ''1104065010001'' ''120'', ex_row ''1104066020002'' ''500'']\<rparr>"

text \<open>What the service answers when it has no data for the hour: no envelope at all.\<close>

definition ex_nodata_response :: response where
  "ex_nodata_response =
     \<lparr>status_code = 200,
      body = Some (JObj [(''RESULT'',
        JObj [(''CODE'', JStr ''INFO-200''), (''MESSAGE'', JStr ''no data'')])])\<rparr>"

definition ex_http :: "string \<Rightarrow> error + response" where
  "ex_http url = Inr ex_response"

definition ex_http_nodata :: "string \<Rightarrow> error + response" where
  "ex_http_nodata url = Inr ex_nodata_response"

text \<open>A service that is down for hour 07 of 2025-09-05 only.\<close>

definition ex_http_down_at_07 :: "string \<Rightarrow> error + response" where
  "ex_http_down_at_07 url =
     (if url = fetch_url ''KEY'' ''20250905'' ''07''
      then Inr \<lparr>status_code = 503, body = None\<rparr> else Inr ex_response)"

text \<open>A row of the district whose tract the boundary set does not hold.\<close>

definition ex_df_unmatched :: DataFrame where
  "ex_df_unmatched =
     \<lparr>columns = [''OA_CD'', ''TOT_LVPOP_CO''],
      rows = [[(''OA_CD'', ''1104067030003''), (''TOT_LVPOP_CO'', ''50'')]]\<rparr>"

text \<open>A row of a tract the boundary set holds, with a decimal count.\<close>

definition ex_df_decimal :: DataFrame where
  "ex_df_decimal =
     \<lparr>columns = [''OA_CD'', ''TOT_LVPOP_CO''],
      rows = [[(''OA_CD'', ''1104066020002''), (''TOT_LVPOP_CO'', ''17.1391'')]]\<rparr>"

definition ex_world :: world where
  "ex_world = \<lparr>cache = [], requests = []\<rparr>"

definition ex_read_file :: "nat GeoDataFrame \<Rightarrow> error + nat GeoDataFrame" where
  "ex_read_file file = Inr file"

definition ex_inputs :: "viz_type \<Rightarrow> nat GeoDataFrame option \<Rightarrow> nat GeoDataFrame inputs" where
  "ex_inputs viz file =
     \<lparr>secret_SEOUL_API_KEY = Some ''KEY'', date_input = ''20250905'', hour_input = 14,
      viz_input = viz, uploaded_file = file\<rparr>"

section \<open>Properties\<close>

subsection \<open>Filtering, fetching and the cache\<close>

lemma filter_gdf_rows:
  "filter_gdf g = Inr g' \<Longrightarrow> b \<in> set (grows g') \<Longrightarrow> str7_isin (map_of (props b) ''OA_CD'')"
  by (auto simp: filter_gdf_def split: if_splits)

lemma filter_df_rows:
  "filter_df d = Inr d' \<Longrightarrow> r \<in> set (rows d') \<Longrightarrow> str7_isin (map_of r ''OA_CD'')"
  by (auto simp: filter_df_def split: if_splits)

lemma filter_df_columns:
  "filter_df d = Inr d' \<Longrightarrow> ''OA_CD'' \<in> set (columns d')"
  by (auto simp: filter_df_def split: if_splits)

lemma bind_err_Inr:
  "bind_err m f = Inr v \<longleftrightarrow> (\<exists>u. m = Inr u \<and> f u = Inr v)"
  by (cases m) (simp_all add: bind_err_def)

lemma fetch_data_filtered:
  "fetch_data API_KEY http_get date_str hour_str = Inr df \<Longrightarrow> \<exists>d. filter_df d = Inr df"
  unfolding fetch_data_def bind_err_Inr by blast

lemma str7_isin_iff:
  "str7_isin c \<longleftrightarrow> (\<exists>s. c = Some s \<and> take 7 s \<in> VALID_PREFIXES)"
  by (cases c) (simp_all add: str7_isin_def)

lemma fetch_data_rows:
  "fetch_data API_KEY http_get date_str hour_str = Inr df \<Longrightarrow> r \<in> set (rows df) \<Longrightarrow>
   \<exists>s. map_of r ''OA_CD'' = Some s \<and> take 7 s \<in> VALID_PREFIXES"
  using fetch_data_filtered filter_df_rows str7_isin_iff by blast

lemma cache_read_SomeD:
  "cache_read now w key = Some df \<Longrightarrow> \<exists>t. (key, (t, df)) \<in> set (cache w)"
  by (auto simp: cache_read_def split: option.splits if_splits dest!: map_of_SomeD)

lemma fetch_cached_hit:
  "cache_read now w (d, h) = Some df \<Longrightarrow> fetch_data_cached K http now d h w = (Inr df, w)"
  by (simp add: fetch_data_cached_def)

lemma fetch_cached_miss:
  "cache_read now w (d, h) = None \<Longrightarrow>
   fetch_data_cached K http now d h w =
     (case fetch_data K http d h of
        Inl e \<Rightarrow> (Inl e, w\<lparr>requests := requests w @ [fetch_url K d h]\<rparr>)
      | Inr df \<Rightarrow> (Inr df, \<lparr>cache = ((d, h), (now, df)) # cache w,
                            requests = requests w @ [fetch_url K d h]\<rparr>))"
  by (simp add: fetch_data_cached_def Let_def split: sum.splits)

lemma ex_filter: "filter_gdf ex_upload = Inr ex_gdf"
  by (simp add: filter_gdf_def ex_upload_def ex_gdf_def str7_isin_def VALID_PREFIXES_def)

lemma ex_fetch: "fetch_data K ex_http d h = Inr ex_df"
  by (simp add: fetch_data_def ex_http_def ex_response_def bind_err_def raise_for_status_def
      resp_json_def mk_DataFrame_def first_seen_def ex_json_row_def ex_row_def filter_df_def
      str7_isin_def VALID_PREFIXES_def ex_df_def)

lemma ex_fetch_cached:
  "fetch_data_cached K ex_http now d h ex_world =
     (Inr ex_df, \<lparr>cache = [((d, h), (now, ex_df))], requests = [fetch_url K d h]\<rparr>)"
  by (simp add: fetch_data_cached_def cache_read_def ex_world_def ex_fetch)

subsection \<open>The hours of the animated view\<close>

lemma fetch_cached_result:
  "fst (fetch_data_cached K http now d h w) =
     (case cache_read now w (d, h) of Some df \<Rightarrow> Inr df | None \<Rightarrow> fetch_data K http d h)"
  by (simp add: fetch_data_cached_def Let_def split: option.splits sum.splits)

lemma fetch_cached_other_key:
  "key \<noteq> (d, h) \<Longrightarrow>
   cache_read now' (snd (fetch_data_cached K http now d h w)) key = cache_read now' w key"
  by (simp add: fetch_data_cached_def cache_read_def Let_def split: option.splits sum.splits)

lemma fetch_cached_other_result:
  "h' \<noteq> h \<Longrightarrow>
   fst (fetch_data_cached K http now d h' (snd (fetch_data_cached K http now d h w))) =
   fst (fetch_data_cached K http now d h' w)"
  by (simp add: fetch_cached_result fetch_cached_other_key)

lemma distinct_hours: "distinct (map fmt_02d [0..<24])"
  by code_simp

lemma index_literal: "map fmt_02d [0..<24] =
  [''00'', ''01'', ''02'', ''03'', ''04'', ''05'', ''06'', ''07'', ''08'', ''09'', ''10'', ''11'',
   ''12'', ''13'', ''14'', ''15'', ''16'', ''17'', ''18'', ''19'', ''20'', ''21'', ''22'', ''23'']"
  by code_simp

lemma loop_Inr:
  "distinct (map fmt_02d hs) \<Longrightarrow>
   time_heat_loop K http now c gdf d hs acc w = (Inr all_heat, w') \<Longrightarrow>
   \<exists>ls. all_heat = acc @ ls \<and> length ls = length hs \<and>
     (\<forall>i<length hs. \<exists>df. fst (fetch_data_cached K http now d (fmt_02d (hs ! i)) w) = Inr df \<and>
        heat_data c gdf df = Inr (ls ! i))"
proof (induction hs arbitrary: acc w)
  case Nil
  then show ?case by simp
next
  case (Cons h hs)
  obtain res w1 where f: "fetch_data_cached K http now d (fmt_02d h) w = (res, w1)"
    by (cases "fetch_data_cached K http now d (fmt_02d h) w")
  with Cons.prems(2) obtain df where res: "res = Inr df"
    by (cases res) auto
  from Cons.prems(2) f res obtain layer where
    layer: "heat_data c gdf df = Inr layer"
    and rest: "time_heat_loop K http now c gdf d hs (acc @ [layer]) w1 = (Inr all_heat, w')"
    by (cases "heat_data c gdf df") (auto simp: heat_data_def)
  from Cons.prems(1) have dist: "distinct (map fmt_02d hs)" and nin: "fmt_02d h \<notin> fmt_02d ` set hs"
    by simp_all
  from Cons.IH [OF dist rest] obtain ls where
    ls: "all_heat = (acc @ [layer]) @ ls" "length ls = length hs"
    and each: "\<forall>i<length hs. \<exists>df. fst (fetch_data_cached K http now d (fmt_02d (hs ! i)) w1) = Inr df \<and>
        heat_data c gdf df = Inr (ls ! i)"
    by blast
  have same: "fst (fetch_data_cached K http now d (fmt_02d (hs ! i)) w1) =
      fst (fetch_data_cached K http now d (fmt_02d (hs ! i)) w)" if "i < length hs" for i
  proof -
    from that nin have "fmt_02d (hs ! i) \<noteq> fmt_02d h" by (metis image_eqI nth_mem)
    from fetch_cached_other_result [OF this, of K http now d w] f show ?thesis by simp
  qed
  have "\<exists>df. fst (fetch_data_cached K http now d (fmt_02d ((h # hs) ! i)) w) = Inr df \<and>
        heat_data c gdf df = Inr ((layer # ls) ! i)" if "i < length (h # hs)" for i
  proof (cases i)
    case 0
    with f res layer show ?thesis by simp
  next
    case (Suc j)
    with that have "j < length hs" by simp
    with each same Suc show ?thesis by simp
  qed
  with ls show ?case
    by (intro exI [of _ "layer # ls"]) simp
qed

lemma loop_total:
  "distinct (map fmt_02d hs) \<Longrightarrow>
   \<forall>h \<in> set hs. \<exists>df layer. fst (fetch_data_cached K http now d (fmt_02d h) w) = Inr df \<and>
        heat_data c gdf df = Inr layer \<Longrightarrow>
   \<exists>all_heat w'. time_heat_loop K http now c gdf d hs acc w = (Inr all_heat, w')"
proof (induction hs arbitrary: acc w)
  case Nil
  then show ?case by simp
next
  case (Cons h hs)
  obtain res w1 where f: "fetch_data_cached K http now d (fmt_02d h) w = (res, w1)"
    by (cases "fetch_data_cached K http now d (fmt_02d h) w")
  from Cons.prems(2) f obtain df layer where res: "res = Inr df" and layer: "heat_data c gdf df = Inr layer"
    by auto
  from Cons.prems(1) have dist: "distinct (map fmt_02d hs)" and nin: "fmt_02d h \<notin> fmt_02d ` set hs"
    by simp_all
  have "\<forall>h' \<in> set hs. \<exists>df layer. fst (fetch_data_cached K http now d (fmt_02d h') w1) = Inr df \<and>
        heat_data c gdf df = Inr layer"
  proof
    fix h' assume h': "h' \<in> set hs"
    with nin have "fmt_02d h' \<noteq> fmt_02d h" by (metis image_eqI)
    from fetch_cached_other_result [OF this, of K http now d w] f
    have "fst (fetch_data_cached K http now d (fmt_02d h') w1) =
      fst (fetch_data_cached K http now d (fmt_02d h') w)" by simp
    with Cons.prems(2) h' show "\<exists>df layer. fst (fetch_data_cached K http now d (fmt_02d h') w1) = Inr df \<and>
        heat_data c gdf df = Inr layer" by simp
  qed
  from Cons.IH [OF dist this, of "acc @ [layer]"] f res layer show ?case
    by (simp add: heat_data_def)
qed

subsection \<open>The claims\<close>

text \<open>
  C1. The claim: a response that parses as JSON but lacks the \<open>TEMP_FOREIGNER\<close> key, or
  whose envelope lacks \<open>row\<close>, gives an empty record set and no error. The code
  does supply the defaults \<open>{}\<close> and \<open>[]\<close> (line 56), but the frame built from
  the empty list has no column \<open>OA_CD\<close>, and the filter of line 59 selects that
  column: on every such response \<open>fetch_data\<close> raises \<open>KeyError\<close>.
\<close>

theorem fetch_data_missing_envelope_raises:
  assumes "http_get (fetch_url API_KEY date_str hour_str) = Inr resp"
    and "\<not> (400 \<le> status_code resp \<and> status_code resp < 600)"
    and "body resp = Some (JObj kvs)"
    and "map_of kvs ''TEMP_FOREIGNER'' = None \<or>
         (\<exists>env. map_of kvs ''TEMP_FOREIGNER'' = Some (JObj env) \<and> map_of env ''row'' = None)"
  shows "fetch_data API_KEY http_get date_str hour_str = Inl (KeyError ''OA_CD'')"
  using assms
  by (auto simp: fetch_data_def bind_err_def raise_for_status_def resp_json_def
      mk_DataFrame_def filter_df_def first_seen_def)

theorem fetch_data_missing_envelope_raises_witness:
  "ex_http_nodata (fetch_url ''KEY'' ''20250905'' ''14'') = Inr ex_nodata_response \<and>
   status_code ex_nodata_response = 200 \<and>
   (\<exists>kvs. body ex_nodata_response = Some (JObj kvs) \<and> map_of kvs ''TEMP_FOREIGNER'' = None) \<and>
   fetch_data ''KEY'' ex_http_nodata ''20250905'' ''14'' = Inl (KeyError ''OA_CD'')"
  using fetch_data_missing_envelope_raises
    [of ex_http_nodata "''KEY''" "''20250905''" "''14''" ex_nodata_response
        "[(''RESULT'', JObj [(''CODE'', JStr ''INFO-200''), (''MESSAGE'', JStr ''no data'')])]"]
  by (simp add: ex_http_nodata_def ex_nodata_response_def)

text \<open>
  C3. Every boundary record that the loader's filter keeps, and every population record
  that \<open>fetch_data\<close> returns, has a tract code whose first seven characters are in
  the allow-list; the same holds for what the cached fetcher returns and keeps, as long
  as the cache held only such records before.
\<close>

theorem retained_records_have_allowed_prefix:
  "(filter_gdf g = Inr g' \<longrightarrow>
      (\<forall>b \<in> set (grows g'). \<exists>s. map_of (props b) ''OA_CD'' = Some s \<and> take 7 s \<in> VALID_PREFIXES)) \<and>
   (fetch_data API_KEY http_get date_str hour_str = Inr df \<longrightarrow>
      (\<forall>r \<in> set (rows df). \<exists>s. map_of r ''OA_CD'' = Some s \<and> take 7 s \<in> VALID_PREFIXES)) \<and>
   ((\<forall>entry \<in> set (cache w). \<forall>r \<in> set (rows (snd (snd entry))).
        \<exists>s. map_of r ''OA_CD'' = Some s \<and> take 7 s \<in> VALID_PREFIXES) \<and>
    fetch_data_cached API_KEY http_get now date_str hour_str w = (Inr df', w') \<longrightarrow>
      (\<forall>r \<in> set (rows df'). \<exists>s. map_of r ''OA_CD'' = Some s \<and> take 7 s \<in> VALID_PREFIXES) \<and>
      (\<forall>entry \<in> set (cache w'). \<forall>r \<in> set (rows (snd (snd entry))).
        \<exists>s. map_of r ''OA_CD'' = Some s \<and> take 7 s \<in> VALID_PREFIXES))"
proof (intro conjI impI)
  show "\<forall>b \<in> set (grows g'). \<exists>s. map_of (props b) ''OA_CD'' = Some s \<and> take 7 s \<in> VALID_PREFIXES"
    if "filter_gdf g = Inr g'"
    using that filter_gdf_rows str7_isin_iff by blast
next
  show "\<forall>r \<in> set (rows df). \<exists>s. map_of r ''OA_CD'' = Some s \<and> take 7 s \<in> VALID_PREFIXES"
    if "fetch_data API_KEY http_get date_str hour_str = Inr df"
    using that fetch_data_rows by blast
next
  let ?ok = "\<lambda>r. \<exists>s. map_of r ''OA_CD'' = Some s \<and> take 7 s \<in> VALID_PREFIXES"
  assume a: "(\<forall>entry \<in> set (cache w). \<forall>r \<in> set (rows (snd (snd entry))). ?ok r) \<and>
    fetch_data_cached API_KEY http_get now date_str hour_str w = (Inr df', w')"
  then have inv: "\<forall>entry \<in> set (cache w). \<forall>r \<in> set (rows (snd (snd entry))). ?ok r"
    and f: "fetch_data_cached API_KEY http_get now date_str hour_str w = (Inr df', w')"
    by blast+
  show "\<forall>r \<in> set (rows df'). ?ok r"
  proof (cases "cache_read now w (date_str, hour_str)")
    case None
    with f have "fetch_data API_KEY http_get date_str hour_str = Inr df'"
      by (auto simp: fetch_cached_miss split: sum.splits)
    then show ?thesis using fetch_data_rows by blast
  next
    case (Some d)
    with f have "d = df'" by (simp add: fetch_cached_hit)
    with Some obtain t where "((date_str, hour_str), (t, df')) \<in> set (cache w)"
      using cache_read_SomeD by blast
    with inv show ?thesis by fastforce
  qed
  show "\<forall>entry \<in> set (cache w'). \<forall>r \<in> set (rows (snd (snd entry))). ?ok r"
  proof (cases "cache_read now w (date_str, hour_str)")
    case None
    with f have fd: "fetch_data API_KEY http_get date_str hour_str = Inr df'"
      and w': "cache w' = ((date_str, hour_str), (now, df')) # cache w"
      by (auto simp: fetch_cached_miss split: sum.splits)
    from fd have "\<forall>r \<in> set (rows df'). ?ok r" using fetch_data_rows by blast
    with inv w' show ?thesis by simp
  next
    case (Some d)
    with f have "w' = w" by (simp add: fetch_cached_hit)
    with inv show ?thesis by simp
  qed
qed

theorem retained_records_have_allowed_prefix_witness:
  "filter_gdf ex_upload = Inr ex_gdf \<and>
   list_all (\<lambda>b. \<exists>s. map_of (props b) ''OA_CD'' = Some s \<and> take 7 s \<in> VALID_PREFIXES) (grows ex_gdf) \<and>
   fetch_data ''KEY'' ex_http ''20250905'' ''14'' = Inr ex_df \<and>
   list_all (\<lambda>r. \<exists>s. map_of r ''OA_CD'' = Some s \<and> take 7 s \<in> VALID_PREFIXES) (rows ex_df) \<and>
   fst (fetch_data_cached ''KEY'' ex_http 0 ''20250905'' ''14'' ex_world) = Inr ex_df \<and>
   rows ex_df \<noteq> [] \<and> grows ex_gdf \<noteq> [] \<and> length (grows ex_gdf) < length (grows ex_upload)"
  using retained_records_have_allowed_prefix
    [of ex_upload ex_gdf "''KEY''" ex_http "''20250905''" "''14''" ex_df ex_world 0 ex_df
        "\<lparr>cache = [((''20250905'', ''14''), (0, ex_df))], requests = [fetch_url ''KEY'' ''20250905'' ''14'']\<rparr>"]
    ex_filter ex_fetch [of "''KEY''" "''20250905''" "''14''"]
    ex_fetch_cached [of "''KEY''" 0 "''20250905''" "''14''"]
  by (simp add: list_all_iff) (simp add: ex_gdf_def ex_upload_def ex_df_def)

subsection \<open>Rows, markers and the example deployment\<close>

lemma row_get_Inr:
  "row_get cols r c = Inr v \<longleftrightarrow> c \<in> set cols \<and> v = map_of r c"
  by (auto simp: row_get_def)

lemma marker_row_Inr:
  "marker_row c gdf cols r = Inr m \<longleftrightarrow>
     (\<exists>p weight. tract_centroid c gdf cols r = Inr p \<and> ''TOT_LVPOP_CO'' \<in> set cols \<and>
        ''OA_CD'' \<in> set cols \<and> py_int (map_of r ''TOT_LVPOP_CO'') = Inr weight \<and>
        \<not> truediv_overflows weight 50 \<and>
        m = \<lparr>location = (pt_y p, pt_x p), radius = marker_radius weight,
             popup = (fmt_cell (map_of r ''OA_CD''), fmt_cell (map_of r ''TOT_LVPOP_CO''))\<rparr>)"
  unfolding marker_row_def bind_err_Inr row_get_Inr by (auto split: if_splits)

lemma ex_markers:
  "point_markers ex_centroid ex_gdf ex_df =
     Inr [\<lparr>location = (101, 1), radius = 3, popup = (''1104065010001'', ''120'')\<rparr>,
          \<lparr>location = (103, 3), radius = 10, popup = (''1104066020002'', ''500'')\<rparr>]"
  by (simp add: point_markers_def marker_row_def ex_gdf_def ex_df_def ex_row_def tract_centroid_def
    row_get_def bind_err_def cell_eq_def ex_centroid_def py_int_def int_max_str_digits_def digit_count_def py_strip_def is_space_def
    int_literal_def unsigned_literal_def digit_of_def marker_radius_def truediv_overflows_def fmt_cell_def)

lemma ex_heat:
  "heat_data ex_centroid ex_gdf ex_df = Inr [(101, 1, 120), (103, 3, 500)]"
  by (simp add: heat_data_def heat_row_def ex_gdf_def ex_df_def ex_row_def tract_centroid_def
    row_get_def bind_err_def cell_eq_def ex_centroid_def py_int_def int_max_str_digits_def digit_count_def py_strip_def is_space_def
    int_literal_def unsigned_literal_def digit_of_def)

lemma ex_select: "select_columns ex_df summary_columns = Inr ex_df"
  by (simp add: select_columns_def summary_columns_def ex_df_def ex_row_def)

lemma ex_fmt14: "fmt_02d 14 = ''14''"
  by code_simp

lemma ex_run_heat:
  "run ex_read_file ex_centroid ex_http 0 (ex_inputs Heat (Some ex_upload)) ex_world =
     (\<lparr>elements =
         [Title, Markdown ''20250905'' ''14'' Heat,
          FoliumMap \<lparr>boundary_layer = ex_gdf, overlay_layer = HeatMap [(101, 1, 120), (103, 3, 500)]\<rparr>,
          Subheader, RecordCount 2, SummaryTable ex_df],
       ending = Completed\<rparr>,
      \<lparr>cache = [((''20250905'', ''14''), (0, ex_df))],
       requests = [fetch_url ''KEY'' ''20250905'' ''14'']\<rparr>)"
  by (simp add: run_def ex_inputs_def ex_read_file_def bind_err_def ex_filter ex_fmt14
      ex_fetch_cached build_overlay_def ex_heat ex_select Let_def) (simp add: ex_df_def)

text \<open>
  C5. In points mode the radius of a marker is the weight (the count cast to an
  integer) divided by 50, or 3 where that is less: so it never falls below 3, it does
  not decrease when the weight grows, weight 0 gives 3 and weight 500 gives 10.
  (Python computes the quotient as a double, here it is a real number; the two agree
  on the examples and in the order of their results.)
\<close>

theorem marker_radius_floor_and_monotone:
  "(marker_row c gdf cols r = Inr m \<longrightarrow>
      (\<exists>weight. py_int (map_of r ''TOT_LVPOP_CO'') = Inr weight \<and>
         radius m = max (real_of_int weight / 50) 3)) \<and>
   (w1 \<le> w2 \<longrightarrow> marker_radius w1 \<le> marker_radius w2) \<and>
   3 \<le> marker_radius w \<and> marker_radius 0 = 3 \<and> marker_radius 500 = 10"
proof (intro conjI impI)
  assume "marker_row c gdf cols r = Inr m"
  then show "\<exists>weight. py_int (map_of r ''TOT_LVPOP_CO'') = Inr weight \<and>
         radius m = max (real_of_int weight / 50) 3"
    unfolding marker_row_Inr by (auto simp: marker_radius_def)
next
  assume "w1 \<le> w2"
  then have "real_of_int w1 / 50 \<le> real_of_int w2 / 50" by simp
  then show "marker_radius w1 \<le> marker_radius w2"
    unfolding marker_radius_def by (rule max.mono) simp
qed (simp_all add: marker_radius_def)

theorem marker_radius_floor_and_monotone_witness:
  "marker_row ex_centroid ex_gdf (columns ex_df) (ex_row ''1104066020002'' ''500'') =
     Inr \<lparr>location = (103, 3), radius = 10, popup = (''1104066020002'', ''500'')\<rparr> \<and>
   py_int (map_of (ex_row ''1104066020002'' ''500'') ''TOT_LVPOP_CO'') = Inr 500 \<and>
   (0::int) \<le> 500 \<and> marker_radius 0 \<le> marker_radius 500 \<and>
   marker_radius 0 = 3 \<and> marker_radius 500 = 10"
proof -
  have m: "marker_row ex_centroid ex_gdf (columns ex_df) (ex_row ''1104066020002'' ''500'') =
     Inr \<lparr>location = (103, 3), radius = 10, popup = (''1104066020002'', ''500'')\<rparr>"
    by (simp add: marker_row_def ex_gdf_def ex_df_def ex_row_def tract_centroid_def
      row_get_def bind_err_def cell_eq_def ex_centroid_def py_int_def int_max_str_digits_def digit_count_def py_strip_def is_space_def
      int_literal_def unsigned_literal_def digit_of_def marker_radius_def truediv_overflows_def fmt_cell_def)
  have p: "py_int (map_of (ex_row ''1104066020002'' ''500'') ''TOT_LVPOP_CO'') = Inr 500"
    by (simp add: ex_row_def py_int_def int_max_str_digits_def digit_count_def py_strip_def is_space_def
      int_literal_def unsigned_literal_def digit_of_def)
  from marker_radius_floor_and_monotone
    [of ex_centroid ex_gdf "columns ex_df" "ex_row ''1104066020002'' ''500''"
        "\<lparr>location = (103, 3), radius = 10, popup = (''1104066020002'', ''500'')\<rparr>" 0 500 0] m p
  show ?thesis by simp
qed

text \<open>
  C8. With the credential in place and no boundary file uploaded, a run shows the
  warning and stops: the page holds nothing else (no map, no summary table), and the
  world is as before (nothing was requested from the service).
\<close>

theorem no_upload_halts_with_warning:
  assumes "secret_SEOUL_API_KEY inp = Some API_KEY" and "uploaded_file inp = None"
  shows "run read_file centroid http_get now inp w = (\<lparr>elements = [Warning], ending = Stopped\<rparr>, w) \<and>
    requests (snd (run read_file centroid http_get now inp w)) = requests w \<and>
    (\<forall>m. FoliumMap m \<notin> set (elements (fst (run read_file centroid http_get now inp w)))) \<and>
    (\<forall>t. SummaryTable t \<notin> set (elements (fst (run read_file centroid http_get now inp w))))"
  using assms by (simp add: run_def)

theorem no_upload_halts_with_warning_witness:
  "secret_SEOUL_API_KEY (ex_inputs Heat None) = Some ''KEY'' \<and>
   uploaded_file (ex_inputs Heat None) = None \<and>
   run ex_read_file ex_centroid ex_http 0 (ex_inputs Heat None) ex_world =
     (\<lparr>elements = [Warning], ending = Stopped\<rparr>, ex_world) \<and>
   requests (snd (run ex_read_file ex_centroid ex_http 0 (ex_inputs Heat None) ex_world)) = []"
  using no_upload_halts_with_warning
    [of "ex_inputs Heat None" "''KEY''" ex_read_file ex_centroid ex_http 0 ex_world]
  by (simp add: ex_inputs_def ex_world_def)

text \<open>
  C9. When a call of the fetcher went to the network and returned a record set, a
  second call for the same date and hour less than 3600 seconds later returns the
  same record set and leaves the world as it was, whatever the service would answer
  now: no request is made. The first call made exactly one request. Likewise two
  calls that both fall within the hour of an entry already stored return that entry.
\<close>

theorem second_fetch_within_ttl_is_cached:
  "(cache_read now w (date_str, hour_str) = None \<and>
    fetch_data_cached API_KEY http_get now date_str hour_str w = (Inr df, w1) \<and>
    now' < now + 3600 \<longrightarrow>
      fetch_data_cached API_KEY http_get' now' date_str hour_str w1 = (Inr df, w1) \<and>
      requests w1 = requests w @ [fetch_url API_KEY date_str hour_str]) \<and>
   (map_of (cache w) (date_str, hour_str) = Some (t, df0) \<and> now < t + 3600 \<and> now' < t + 3600 \<longrightarrow>
      fetch_data_cached API_KEY http_get now date_str hour_str w = (Inr df0, w) \<and>
      fetch_data_cached API_KEY http_get' now' date_str hour_str w = (Inr df0, w))"
  by (auto simp: fetch_data_cached_def cache_read_def ttl_def Let_def split: sum.splits option.splits)

theorem second_fetch_within_ttl_is_cached_witness:
  "cache_read 0 ex_world (''20250905'', ''14'') = None \<and>
   fetch_data_cached ''KEY'' ex_http 0 ''20250905'' ''14'' ex_world =
     (Inr ex_df, \<lparr>cache = [((''20250905'', ''14''), (0, ex_df))],
                  requests = [fetch_url ''KEY'' ''20250905'' ''14'']\<rparr>) \<and>
   fetch_data_cached ''KEY'' ex_http_nodata 3599 ''20250905'' ''14''
       \<lparr>cache = [((''20250905'', ''14''), (0, ex_df))],
        requests = [fetch_url ''KEY'' ''20250905'' ''14'']\<rparr> =
     (Inr ex_df, \<lparr>cache = [((''20250905'', ''14''), (0, ex_df))],
                  requests = [fetch_url ''KEY'' ''20250905'' ''14'']\<rparr>) \<and>
   fetch_data_cached ''KEY'' ex_http_nodata 1800 ''20250905'' ''14''
       \<lparr>cache = [((''20250905'', ''14''), (0, ex_df))],
        requests = [fetch_url ''KEY'' ''20250905'' ''14'']\<rparr> =
     (Inr ex_df, \<lparr>cache = [((''20250905'', ''14''), (0, ex_df))],
                  requests = [fetch_url ''KEY'' ''20250905'' ''14'']\<rparr>)"
  using second_fetch_within_ttl_is_cached
      [of 0 ex_world "''20250905''" "''14''" "''KEY''" ex_http ex_df
          "\<lparr>cache = [((''20250905'', ''14''), (0, ex_df))],
            requests = [fetch_url ''KEY'' ''20250905'' ''14'']\<rparr>" 3599 ex_http_nodata 0 ex_df]
    second_fetch_within_ttl_is_cached
      [of 7 "\<lparr>cache = [((''20250905'', ''14''), (0, ex_df))],
            requests = [fetch_url ''KEY'' ''20250905'' ''14'']\<rparr>" "''20250905''" "''14''"
          "''KEY''" ex_http ex_df ex_world 1800 ex_http_nodata 0 ex_df]
    ex_fetch_cached [of "''KEY''" 0 "''20250905''" "''14''"]
  by (simp add: cache_read_def ex_world_def)

subsection \<open>Loops over rows and the tract lookup\<close>

lemma for_each_Inr:
  "for_each f xs = Inr ys \<longleftrightarrow> list_all2 (\<lambda>x y. f x = Inr y) xs ys"
proof (induction xs arbitrary: ys)
  case Nil
  then show ?case by auto
next
  case (Cons a xs)
  show ?case
  proof (cases "f a")
    case (Inl e)
    then show ?thesis by (auto simp: list_all2_Cons1)
  next
    case (Inr b)
    then show ?thesis
      using Cons.IH by (cases "for_each f xs") (auto simp: list_all2_Cons1)
  qed
qed

lemma for_each_nth:
  "for_each f xs = Inr ys \<Longrightarrow> length ys = length xs \<and> (\<forall>i<length xs. f (xs ! i) = Inr (ys ! i))"
  unfolding for_each_Inr by (auto simp: list_all2_conv_all_nth)

lemma for_each_Inl:
  "x \<in> set xs \<Longrightarrow> f x = Inl e \<Longrightarrow> \<exists>e'. for_each f xs = Inl e'"
proof (cases "for_each f xs")
  case (Inr ys)
  assume "x \<in> set xs" "f x = Inl e"
  then obtain i where "i < length xs" "xs ! i = x" by (auto simp: in_set_conv_nth)
  with for_each_nth [OF Inr] \<open>f x = Inl e\<close> show ?thesis by auto
qed simp

lemma for_each_first_Inl:
  "\<forall>x \<in> set pre. \<exists>v. f x = Inr v \<Longrightarrow> f x = Inl e \<Longrightarrow> for_each f (pre @ x # post) = Inl e"
  by (induction pre) (auto split: sum.splits)

lemma for_each_total:
  "\<forall>x \<in> set xs. \<exists>v. f x = Inr v \<Longrightarrow> \<exists>ys. for_each f xs = Inr ys"
  by (induction xs) (auto split: sum.splits)

lemma cell_eq_Some: "cell_eq m (Some T) \<longleftrightarrow> m = Some T"
  by (cases m) (auto simp: cell_eq_def)

lemma filter_first_find:
  "(case filter P xs of [] \<Rightarrow> a | b # _ \<Rightarrow> g b) = (case find P xs of None \<Rightarrow> a | Some b \<Rightarrow> g b)"
  by (induction xs) auto

lemma tract_centroid_find:
  assumes "''OA_CD'' \<in> set (gcolumns gdf)" and "''OA_CD'' \<in> set cols" and "map_of r ''OA_CD'' = Some T"
  shows "tract_centroid c gdf cols r =
     (case find (\<lambda>b. map_of (props b) ''OA_CD'' = Some T) (grows gdf) of
        None \<Rightarrow> Inl IndexError
      | Some b \<Rightarrow> Inr (c (geometry b)))"
  using assms
  by (simp add: tract_centroid_def row_get_def bind_err_def cell_eq_Some filter_first_find)

lemma tract_centroid_Inr_cols:
  "tract_centroid c gdf cols r = Inr p \<Longrightarrow> ''OA_CD'' \<in> set (gcolumns gdf) \<and> ''OA_CD'' \<in> set cols"
  by (auto simp: tract_centroid_def row_get_def bind_err_def split: if_splits)

lemma heat_row_Inr:
  "heat_row c gdf cols r = Inr pt \<longleftrightarrow>
     (\<exists>p weight. tract_centroid c gdf cols r = Inr p \<and> ''TOT_LVPOP_CO'' \<in> set cols \<and>
        py_int (map_of r ''TOT_LVPOP_CO'') = Inr weight \<and> pt = (pt_y p, pt_x p, weight))"
  unfolding heat_row_def bind_err_Inr row_get_Inr by auto

lemma tract_centroid_unmatched:
  assumes "''OA_CD'' \<in> set (gcolumns gdf)" and "''OA_CD'' \<in> set cols" and "map_of r ''OA_CD'' = Some T"
    and "\<forall>b \<in> set (grows gdf). map_of (props b) ''OA_CD'' \<noteq> Some T"
  shows "tract_centroid c gdf cols r = Inl IndexError"
proof -
  from assms(4) have "find (\<lambda>b. map_of (props b) ''OA_CD'' = Some T) (grows gdf) = None"
    by (simp add: find_None_iff)
  with tract_centroid_find [OF assms(1-3)] show ?thesis by simp
qed

text \<open>
  C2, as claimed: a population record whose tract has no boundary record is dropped
  silently by the points and heatmap paths. The code has no such path: the selection
  for the tract is empty and \<open>.iloc[0]\<close> raises \<open>IndexError\<close>. Here a record of
  the district (the fetcher keeps it) whose tract the boundary set lacks: both paths
  end in \<open>IndexError\<close>, where the claim has them return the empty overlay.
\<close>

theorem unmatched_record_is_dropped_counterexample:
  "str7_isin (map_of [(''OA_CD'', ''1104067030003''), (''TOT_LVPOP_CO'', ''50'')] ''OA_CD'') \<and>
   list_all (\<lambda>b. map_of (props b) ''OA_CD'' \<noteq> Some ''1104067030003'') (grows ex_gdf) \<and>
   rows ex_df_unmatched = [[(''OA_CD'', ''1104067030003''), (''TOT_LVPOP_CO'', ''50'')]] \<and>
   point_markers ex_centroid ex_gdf ex_df_unmatched = Inl IndexError \<and>
   heat_data ex_centroid ex_gdf ex_df_unmatched = Inl IndexError \<and>
   point_markers ex_centroid ex_gdf ex_df_unmatched \<noteq> Inr [] \<and>
   heat_data ex_centroid ex_gdf ex_df_unmatched \<noteq> Inr []"
  by (simp add: str7_isin_def VALID_PREFIXES_def ex_gdf_def ex_df_unmatched_def point_markers_def
      heat_data_def marker_row_def heat_row_def tract_centroid_def row_get_def bind_err_def cell_eq_def)

text \<open>
  C2, amended. For a population record whose tract code no boundary record of the
  filtered set carries, no joined point is emitted, but not silently: the record's own
  lookup raises \<open>IndexError\<close>, so neither the points path nor the heatmap path
  returns an overlay at all, and where the record is the first to fail, the exception
  that ends the run is that \<open>IndexError\<close>.
\<close>

theorem unmatched_record_aborts_overlay:
  assumes "''OA_CD'' \<in> set (gcolumns gdf)" and "''OA_CD'' \<in> set (columns df)"
    and "r \<in> set (rows df)" and "map_of r ''OA_CD'' = Some T"
    and "\<forall>b \<in> set (grows gdf). map_of (props b) ''OA_CD'' \<noteq> Some T"
  shows "marker_row centroid gdf (columns df) r = Inl IndexError \<and>
    heat_row centroid gdf (columns df) r = Inl IndexError \<and>
    (\<exists>e. point_markers centroid gdf df = Inl e) \<and>
    (\<exists>e. heat_data centroid gdf df = Inl e) \<and>
    (rows df = pre @ r # post \<and> (\<forall>r' \<in> set pre. \<exists>m. marker_row centroid gdf (columns df) r' = Inr m)
       \<longrightarrow> point_markers centroid gdf df = Inl IndexError) \<and>
    (rows df = pre @ r # post \<and> (\<forall>r' \<in> set pre. \<exists>p. heat_row centroid gdf (columns df) r' = Inr p)
       \<longrightarrow> heat_data centroid gdf df = Inl IndexError)"
proof -
  have t: "tract_centroid centroid gdf (columns df) r = Inl IndexError"
    using assms(1,2,4,5) by (rule tract_centroid_unmatched)
  have m: "marker_row centroid gdf (columns df) r = Inl IndexError"
    by (simp add: marker_row_def t bind_err_def)
  have h: "heat_row centroid gdf (columns df) r = Inl IndexError"
    by (simp add: heat_row_def t bind_err_def)
  from for_each_Inl [of r "rows df" "marker_row centroid gdf (columns df)" IndexError] assms(3) m have pm: "\<exists>e. point_markers centroid gdf df = Inl e"
    by (simp add: point_markers_def)
  from for_each_Inl [of r "rows df" "heat_row centroid gdf (columns df)" IndexError] assms(3) h have hd: "\<exists>e. heat_data centroid gdf df = Inl e"
    by (simp add: heat_data_def)
  from m have pm1: "point_markers centroid gdf df = Inl IndexError"
    if "rows df = pre @ r # post \<and> (\<forall>r' \<in> set pre. \<exists>m. marker_row centroid gdf (columns df) r' = Inr m)"
    using that by (simp add: point_markers_def for_each_first_Inl)
  from h have hd1: "heat_data centroid gdf df = Inl IndexError"
    if "rows df = pre @ r # post \<and> (\<forall>r' \<in> set pre. \<exists>p. heat_row centroid gdf (columns df) r' = Inr p)"
    using that by (simp add: heat_data_def for_each_first_Inl)
  from m h pm hd pm1 hd1 show ?thesis by blast
qed

theorem unmatched_record_aborts_overlay_witness:
  "''OA_CD'' \<in> set (gcolumns ex_gdf) \<and> ''OA_CD'' \<in> set (columns ex_df_unmatched) \<and>
   [(''OA_CD'', ''1104067030003''), (''TOT_LVPOP_CO'', ''50'')] \<in> set (rows ex_df_unmatched) \<and>
   list_all (\<lambda>b. map_of (props b) ''OA_CD'' \<noteq> Some ''1104067030003'') (grows ex_gdf) \<and>
   marker_row ex_centroid ex_gdf (columns ex_df_unmatched)
     [(''OA_CD'', ''1104067030003''), (''TOT_LVPOP_CO'', ''50'')] = Inl IndexError \<and>
   heat_row ex_centroid ex_gdf (columns ex_df_unmatched)
     [(''OA_CD'', ''1104067030003''), (''TOT_LVPOP_CO'', ''50'')] = Inl IndexError \<and>
   point_markers ex_centroid ex_gdf ex_df_unmatched = Inl IndexError \<and>
   heat_data ex_centroid ex_gdf ex_df_unmatched = Inl IndexError"
proof -
  have a: "''OA_CD'' \<in> set (gcolumns ex_gdf)" "''OA_CD'' \<in> set (columns ex_df_unmatched)"
    "[(''OA_CD'', ''1104067030003''), (''TOT_LVPOP_CO'', ''50'')] \<in> set (rows ex_df_unmatched)"
    "map_of [(''OA_CD'', ''1104067030003''), (''TOT_LVPOP_CO'', ''50'')] ''OA_CD'' = Some ''1104067030003''"
    "\<forall>b \<in> set (grows ex_gdf). map_of (props b) ''OA_CD'' \<noteq> Some ''1104067030003''"
    by (simp_all add: ex_gdf_def ex_df_unmatched_def)
  have r: "rows ex_df_unmatched = [] @ [(''OA_CD'', ''1104067030003''), (''TOT_LVPOP_CO'', ''50'')] # []"
    by (simp add: ex_df_unmatched_def)
  from unmatched_record_aborts_overlay [OF a, of ex_centroid "[]" "[]"] a r
  show ?thesis by (simp add: list_all_iff)
qed

subsection \<open>The centroid of a tract and the layers of the animated view\<close>

lemma find_same_centroid:
  assumes "b \<in> set bs" and "P b" and "\<forall>b' \<in> set bs. P b' \<longrightarrow> g b' = g b"
  shows "\<exists>b'. find P bs = Some b' \<and> g b' = g b"
proof (cases "find P bs")
  case None
  with assms(1,2) show ?thesis by (auto simp: find_None_iff)
next
  case (Some b')
  then have "b' \<in> set bs" "P b'" by (auto simp: find_Some_iff)
  with assms(3) Some show ?thesis by auto
qed

lemma time_heat_layers:
  assumes "build_overlay K http now c gdf d TimeHeat df w = (Inr ov, w')"
  shows "\<exists>hm. ov = HeatMapWithTime hm \<and> length (layers hm) = 24 \<and>
     index hm = map fmt_02d [0..<24] \<and> \<not> auto_play hm \<and>
     (\<forall>h<24. \<exists>df_h. fst (fetch_data_cached K http now d (fmt_02d h) w) = Inr df_h \<and>
        heat_data c gdf df_h = Inr (layers hm ! h))"
proof -
  from assms obtain all_heat where
    loop: "time_heat_loop K http now c gdf d [0..<24] [] w = (Inr all_heat, w')"
    and ov: "ov = HeatMapWithTime \<lparr>layers = all_heat, index = map fmt_02d [0..<24],
                   auto_play = False, max_opacity = 0.8\<rparr>"
    by (auto simp: build_overlay_def split: prod.splits sum.splits)
  from loop_Inr [OF distinct_hours loop] obtain ls where
    ls: "all_heat = ls" "length ls = 24"
    and each: "\<forall>i<length [0..<24]. \<exists>df. fst (fetch_data_cached K http now d (fmt_02d ([0..<24] ! i)) w) = Inr df \<and>
        heat_data c gdf df = Inr (ls ! i)"
    by auto
  have "\<exists>df_h. fst (fetch_data_cached K http now d (fmt_02d h) w) = Inr df_h \<and>
        heat_data c gdf df_h = Inr (ls ! h)" if "h < 24" for h
  proof -
    from that have "[0..<24] ! h = h" by (metis add_0 nth_upt)
    with each that show ?thesis by (metis length_upt minus_nat.diff_0)
  qed
  with ov ls show ?thesis by simp
qed

subsection \<open>Runs that end in an exception\<close>





text \<open>
  C4, as claimed: every population record whose tract matches a boundary record yields
  a joined point at the centroid with the count cast to an integer as its weight. The
  cast is \<open>int(...)\<close> on the field as the service sent it, and \<open>int\<close> refuses a
  decimal such as 17.1391 or a masked count such as an asterisk: here a record of a tract
  the boundary set holds, with a decimal count, for which both paths end in
  \<open>ValueError\<close> and no joined point is emitted.
\<close>

theorem matched_record_yields_joined_point_counterexample:
  "find (\<lambda>b. map_of (props b) ''OA_CD'' = Some ''1104066020002'') (grows ex_gdf) =
     Some \<lparr>props = [(''OA_CD'', ''1104066020002'')], geometry = 3\<rparr> \<and>
   rows ex_df_decimal = [[(''OA_CD'', ''1104066020002''), (''TOT_LVPOP_CO'', ''17.1391'')]] \<and>
   str7_isin (Some ''1104066020002'') \<and>
   py_int (Some ''17.1391'') = Inl ValueError \<and>
   py_int (Some ''*'') = Inl ValueError \<and>
   heat_data ex_centroid ex_gdf ex_df_decimal = Inl ValueError \<and>
   point_markers ex_centroid ex_gdf ex_df_decimal = Inl ValueError"
  by (simp add: ex_gdf_def ex_df_decimal_def str7_isin_def VALID_PREFIXES_def heat_data_def
      point_markers_def heat_row_def marker_row_def tract_centroid_def row_get_def bind_err_def
      cell_eq_def py_int_def int_max_str_digits_def digit_count_def py_strip_def is_space_def
      int_literal_def unsigned_literal_def digit_of_def)

lemma py_int_Inl: "py_int v = Inl e \<Longrightarrow> e = ValueError"
  by (auto simp: py_int_def split: option.splits if_splits)

lemma heat_row_matched:
  assumes "tract_centroid c gdf cols r = Inr p"
  shows "heat_row c gdf cols r =
     (if ''TOT_LVPOP_CO'' \<in> set cols
      then (case py_int (map_of r ''TOT_LVPOP_CO'') of
              Inl e \<Rightarrow> Inl e
            | Inr weight \<Rightarrow> Inr (pt_y p, pt_x p, weight))
      else Inl (KeyError ''TOT_LVPOP_CO''))"
  using assms by (simp add: heat_row_def bind_err_def row_get_def split: sum.splits)

lemma marker_row_matched:
  assumes "tract_centroid c gdf cols r = Inr p"
  shows "marker_row c gdf cols r =
     (if ''TOT_LVPOP_CO'' \<in> set cols
      then (case py_int (map_of r ''TOT_LVPOP_CO'') of
              Inl e \<Rightarrow> Inl e
            | Inr weight \<Rightarrow>
                if truediv_overflows weight 50 then Inl OverflowError
                else Inr \<lparr>location = (pt_y p, pt_x p), radius = marker_radius weight,
                       popup = (fmt_cell (map_of r ''OA_CD''), fmt_cell (map_of r ''TOT_LVPOP_CO''))\<rparr>)
      else Inl (KeyError ''TOT_LVPOP_CO''))"
  using assms tract_centroid_Inr_cols [OF assms]
  by (simp add: marker_row_def bind_err_def row_get_def split: sum.splits)

text \<open>
  C4, amended. A population record of the frame whose tract code T is carried by a
  boundary record of the filtered set (all boundary records with that code having one
  centroid, so that the polygon of T is determined). If \<open>int\<close> accepts its count
  field, with value \<open>weight\<close>: its heat point is (latitude, longitude, weight) of that
  centroid; its marker stands at (latitude, longitude) with the radius of that weight,
  unless weight / 50 is too large for a double, when \<open>OverflowError\<close> is raised;
  and whenever the heatmap or the points overlay is produced, the element at the
  record's position is that point or marker, one element per record. If \<open>int\<close>
  refuses the field, the record's cast raises \<open>ValueError\<close> and neither path returns
  an overlay; if the frame has no count column at all, it is \<open>KeyError\<close>.
\<close>

theorem joined_point_is_centroid_with_int_weight:
  assumes "''OA_CD'' \<in> set (gcolumns gdf)" and "''OA_CD'' \<in> set (columns df)"
    and "map_of r ''OA_CD'' = Some T"
    and "b \<in> set (grows gdf)" and "map_of (props b) ''OA_CD'' = Some T"
    and "\<forall>b' \<in> set (grows gdf). map_of (props b') ''OA_CD'' = Some T \<longrightarrow>
           centroid (geometry b') = centroid (geometry b)"
  shows
    "(''TOT_LVPOP_CO'' \<in> set (columns df) \<and> py_int (map_of r ''TOT_LVPOP_CO'') = Inr weight \<longrightarrow>
        heat_row centroid gdf (columns df) r =
          Inr (pt_y (centroid (geometry b)), pt_x (centroid (geometry b)), weight) \<and>
        (\<not> truediv_overflows weight 50 \<longrightarrow>
           (\<exists>m. marker_row centroid gdf (columns df) r = Inr m \<and>
              location m = (pt_y (centroid (geometry b)), pt_x (centroid (geometry b))) \<and>
              radius m = marker_radius weight)) \<and>
        (truediv_overflows weight 50 \<longrightarrow>
           marker_row centroid gdf (columns df) r = Inl OverflowError) \<and>
        (heat_data centroid gdf df = Inr pts \<longrightarrow>
           length pts = length (rows df) \<and>
           (\<forall>i<length (rows df). rows df ! i = r \<longrightarrow>
              pts ! i = (pt_y (centroid (geometry b)), pt_x (centroid (geometry b)), weight))) \<and>
        (point_markers centroid gdf df = Inr ms \<longrightarrow>
           length ms = length (rows df) \<and>
           (\<forall>i<length (rows df). rows df ! i = r \<longrightarrow>
              location (ms ! i) = (pt_y (centroid (geometry b)), pt_x (centroid (geometry b))) \<and>
              radius (ms ! i) = marker_radius weight))) \<and>
     (''TOT_LVPOP_CO'' \<in> set (columns df) \<and> py_int (map_of r ''TOT_LVPOP_CO'') = Inl e \<longrightarrow>
        e = ValueError \<and>
        heat_row centroid gdf (columns df) r = Inl ValueError \<and>
        marker_row centroid gdf (columns df) r = Inl ValueError \<and>
        (r \<in> set (rows df) \<longrightarrow>
           (\<exists>e'. heat_data centroid gdf df = Inl e') \<and>
           (\<exists>e'. point_markers centroid gdf df = Inl e'))) \<and>
     (''TOT_LVPOP_CO'' \<notin> set (columns df) \<longrightarrow>
        heat_row centroid gdf (columns df) r = Inl (KeyError ''TOT_LVPOP_CO'') \<and>
        marker_row centroid gdf (columns df) r = Inl (KeyError ''TOT_LVPOP_CO''))"
proof -
  let ?cy = "pt_y (centroid (geometry b))" and ?cx = "pt_x (centroid (geometry b))"
  from find_same_centroid [of b "grows gdf" "\<lambda>b. map_of (props b) ''OA_CD'' = Some T"
      "\<lambda>b. centroid (geometry b)"] assms(4-6)
  obtain b' where "find (\<lambda>b. map_of (props b) ''OA_CD'' = Some T) (grows gdf) = Some b'"
    and "centroid (geometry b') = centroid (geometry b)" by blast
  with tract_centroid_find [OF assms(1-3), of centroid]
  have t: "tract_centroid centroid gdf (columns df) r = Inr (centroid (geometry b))" by simp
  note h = heat_row_matched [OF t] and m = marker_row_matched [OF t]
  have ok: "heat_row centroid gdf (columns df) r = Inr (?cy, ?cx, weight) \<and>
        (\<not> truediv_overflows weight 50 \<longrightarrow>
           (\<exists>m. marker_row centroid gdf (columns df) r = Inr m \<and>
              location m = (?cy, ?cx) \<and> radius m = marker_radius weight)) \<and>
        (truediv_overflows weight 50 \<longrightarrow>
           marker_row centroid gdf (columns df) r = Inl OverflowError) \<and>
        (heat_data centroid gdf df = Inr pts \<longrightarrow>
           length pts = length (rows df) \<and>
           (\<forall>i<length (rows df). rows df ! i = r \<longrightarrow> pts ! i = (?cy, ?cx, weight))) \<and>
        (point_markers centroid gdf df = Inr ms \<longrightarrow>
           length ms = length (rows df) \<and>
           (\<forall>i<length (rows df). rows df ! i = r \<longrightarrow>
              location (ms ! i) = (?cy, ?cx) \<and> radius (ms ! i) = marker_radius weight))"
    if c: "''TOT_LVPOP_CO'' \<in> set (columns df) \<and> py_int (map_of r ''TOT_LVPOP_CO'') = Inr weight"
  proof -
    from c h have hr: "heat_row centroid gdf (columns df) r = Inr (?cy, ?cx, weight)" by simp
    from c m have mr: "marker_row centroid gdf (columns df) r =
        (if truediv_overflows weight 50 then Inl OverflowError
         else Inr \<lparr>location = (?cy, ?cx), radius = marker_radius weight,
                popup = (fmt_cell (map_of r ''OA_CD''), fmt_cell (map_of r ''TOT_LVPOP_CO''))\<rparr>)"
      by simp
    have hd: "length pts = length (rows df) \<and>
        (\<forall>i<length (rows df). rows df ! i = r \<longrightarrow> pts ! i = (?cy, ?cx, weight))"
      if "heat_data centroid gdf df = Inr pts"
      using for_each_nth [OF that [unfolded heat_data_def]] hr by auto
    have pm: "length ms = length (rows df) \<and>
        (\<forall>i<length (rows df). rows df ! i = r \<longrightarrow>
           location (ms ! i) = (?cy, ?cx) \<and> radius (ms ! i) = marker_radius weight)"
      if "point_markers centroid gdf df = Inr ms"
    proof (intro conjI allI impI)
      from for_each_nth [OF that [unfolded point_markers_def]]
      show "length ms = length (rows df)" by simp
    next
      fix i assume i: "i < length (rows df)" "rows df ! i = r"
      with for_each_nth [OF that [unfolded point_markers_def]]
      have "marker_row centroid gdf (columns df) r = Inr (ms ! i)" by auto
      with mr have "ms ! i = \<lparr>location = (?cy, ?cx), radius = marker_radius weight,
                popup = (fmt_cell (map_of r ''OA_CD''), fmt_cell (map_of r ''TOT_LVPOP_CO''))\<rparr>"
        by (simp split: if_splits)
      then show "location (ms ! i) = (?cy, ?cx)" "radius (ms ! i) = marker_radius weight"
        by simp_all
    qed
    from hr mr hd pm show ?thesis by simp
  qed
  have bad: "e = ValueError \<and>
        heat_row centroid gdf (columns df) r = Inl ValueError \<and>
        marker_row centroid gdf (columns df) r = Inl ValueError \<and>
        (r \<in> set (rows df) \<longrightarrow>
           (\<exists>e'. heat_data centroid gdf df = Inl e') \<and>
           (\<exists>e'. point_markers centroid gdf df = Inl e'))"
    if c: "''TOT_LVPOP_CO'' \<in> set (columns df) \<and> py_int (map_of r ''TOT_LVPOP_CO'') = Inl e"
  proof -
    from c have e: "e = ValueError" using py_int_Inl by blast
    from c e h have hr: "heat_row centroid gdf (columns df) r = Inl ValueError" by simp
    from c e m have mr: "marker_row centroid gdf (columns df) r = Inl ValueError" by simp
    have "\<exists>e'. heat_data centroid gdf df = Inl e'" if "r \<in> set (rows df)"
      using for_each_Inl [of r "rows df" "heat_row centroid gdf (columns df)" ValueError] that hr
      by (simp add: heat_data_def)
    moreover have "\<exists>e'. point_markers centroid gdf df = Inl e'" if "r \<in> set (rows df)"
      using for_each_Inl [of r "rows df" "marker_row centroid gdf (columns df)" ValueError] that mr
      by (simp add: point_markers_def)
    ultimately show ?thesis using e hr mr by blast
  qed
  have nocol: "heat_row centroid gdf (columns df) r = Inl (KeyError ''TOT_LVPOP_CO'') \<and>
        marker_row centroid gdf (columns df) r = Inl (KeyError ''TOT_LVPOP_CO'')"
    if "''TOT_LVPOP_CO'' \<notin> set (columns df)"
    using that h m by simp
  from ok bad nocol show ?thesis by blast
qed

lemma ex_py_int_500: "py_int (map_of (ex_row tract ''500'') ''TOT_LVPOP_CO'') = Inr 500"
  by (simp add: ex_row_def py_int_def int_max_str_digits_def digit_count_def py_strip_def is_space_def
      int_literal_def unsigned_literal_def digit_of_def)

lemma ex_py_int_decimal: "py_int (Some ''17.1391'') = Inl ValueError"
  by (simp add: py_int_def int_max_str_digits_def digit_count_def py_strip_def is_space_def
      int_literal_def unsigned_literal_def digit_of_def)

theorem joined_point_is_centroid_with_int_weight_witness:
  "''OA_CD'' \<in> set (gcolumns ex_gdf) \<and> ''OA_CD'' \<in> set (columns ex_df) \<and>
   ''TOT_LVPOP_CO'' \<in> set (columns ex_df) \<and>
   map_of (ex_row ''1104066020002'' ''500'') ''OA_CD'' = Some ''1104066020002'' \<and>
   \<lparr>props = [(''OA_CD'', ''1104066020002'')], geometry = 3\<rparr> \<in> set (grows ex_gdf) \<and>
   py_int (map_of (ex_row ''1104066020002'' ''500'') ''TOT_LVPOP_CO'') = Inr 500 \<and>
   \<not> truediv_overflows 500 50 \<and>
   rows ex_df ! 1 = ex_row ''1104066020002'' ''500'' \<and>
   heat_row ex_centroid ex_gdf (columns ex_df) (ex_row ''1104066020002'' ''500'') = Inr (103, 3, 500) \<and>
   heat_data ex_centroid ex_gdf ex_df = Inr [(101, 1, 120), (103, 3, 500)] \<and>
   [(101, 1, 120), (103, 3, 500)] ! 1 = (pt_y (ex_centroid 3), pt_x (ex_centroid 3), 500 :: int) \<and>
   (\<exists>ms. point_markers ex_centroid ex_gdf ex_df = Inr ms \<and> length ms = 2 \<and>
      location (ms ! 1) = (103, 3) \<and> radius (ms ! 1) = marker_radius 500) \<and>
   [(''OA_CD'', ''1104066020002''), (''TOT_LVPOP_CO'', ''17.1391'')] \<in> set (rows ex_df_decimal) \<and>
   py_int (map_of [(''OA_CD'', ''1104066020002''), (''TOT_LVPOP_CO'', ''17.1391'')] ''TOT_LVPOP_CO'') =
     Inl ValueError \<and>
   heat_row ex_centroid ex_gdf (columns ex_df_decimal)
     [(''OA_CD'', ''1104066020002''), (''TOT_LVPOP_CO'', ''17.1391'')] = Inl ValueError \<and>
   marker_row ex_centroid ex_gdf (columns ex_df_decimal)
     [(''OA_CD'', ''1104066020002''), (''TOT_LVPOP_CO'', ''17.1391'')] = Inl ValueError \<and>
   (\<exists>e'. heat_data ex_centroid ex_gdf ex_df_decimal = Inl e') \<and>
   (\<exists>e'. point_markers ex_centroid ex_gdf ex_df_decimal = Inl e')"
proof -
  let ?r = "ex_row ''1104066020002'' ''500''"
  let ?d = "[(''OA_CD'', ''1104066020002''), (''TOT_LVPOP_CO'', ''17.1391'')]"
  let ?b = "\<lparr>props = [(''OA_CD'', ''1104066020002'')], geometry = 3::nat\<rparr>"
  have g: "''OA_CD'' \<in> set (gcolumns ex_gdf)" by (simp add: ex_gdf_def)
  have b: "?b \<in> set (grows ex_gdf)" "map_of (props ?b) ''OA_CD'' = Some ''1104066020002''"
    "\<forall>b' \<in> set (grows ex_gdf). map_of (props b') ''OA_CD'' = Some ''1104066020002'' \<longrightarrow>
       ex_centroid (geometry b') = ex_centroid (geometry ?b)"
    by (simp_all add: ex_gdf_def)
  have a: "''OA_CD'' \<in> set (columns ex_df)" "map_of ?r ''OA_CD'' = Some ''1104066020002''"
    and tc: "''TOT_LVPOP_CO'' \<in> set (columns ex_df)"
    by (simp_all add: ex_df_def ex_row_def)
  have a': "''OA_CD'' \<in> set (columns ex_df_decimal)" "map_of ?d ''OA_CD'' = Some ''1104066020002''"
    and tc': "''TOT_LVPOP_CO'' \<in> set (columns ex_df_decimal)"
    and rd: "?d \<in> set (rows ex_df_decimal)"
    and pd: "py_int (map_of ?d ''TOT_LVPOP_CO'') = Inl ValueError"
    by (simp_all add: ex_df_decimal_def ex_py_int_decimal)
  have r1: "rows ex_df ! 1 = ?r" "length (rows ex_df) = 2" by (simp_all add: ex_df_def)
  have c3: "ex_centroid 3 = \<lparr>pt_x = 3, pt_y = 103\<rparr>" by (simp add: ex_centroid_def)
  have no: "\<not> truediv_overflows 500 50" by (simp add: truediv_overflows_def)
  note T = joined_point_is_centroid_with_int_weight [OF g a b,
      where weight = 500 and pts = "[(101, 1, 120), (103, 3, 500)]"
        and ms = "[\<lparr>location = (101, 1), radius = 3, popup = (''1104065010001'', ''120'')\<rparr>,
           \<lparr>location = (103, 3), radius = 10, popup = (''1104066020002'', ''500'')\<rparr>]"]
  note T' = joined_point_is_centroid_with_int_weight [OF g a' b, where e = ValueError]
  from T [THEN conjunct1] tc ex_py_int_500 [of "''1104066020002''"] no r1 ex_heat ex_markers c3
  have ok: "heat_row ex_centroid ex_gdf (columns ex_df) ?r = Inr (103, 3, 500)"
    "\<exists>ms. point_markers ex_centroid ex_gdf ex_df = Inr ms \<and> length ms = 2 \<and>
      location (ms ! 1) = (103, 3) \<and> radius (ms ! 1) = marker_radius 500"
    by (simp_all add: marker_radius_def)
  from T' [THEN conjunct2, THEN conjunct1] tc' pd rd
  have bad: "heat_row ex_centroid ex_gdf (columns ex_df_decimal) ?d = Inl ValueError"
    "marker_row ex_centroid ex_gdf (columns ex_df_decimal) ?d = Inl ValueError"
    "\<exists>e'. heat_data ex_centroid ex_gdf ex_df_decimal = Inl e'"
    "\<exists>e'. point_markers ex_centroid ex_gdf ex_df_decimal = Inl e'"
    by simp_all
  from g a tc b(1) ex_py_int_500 [of "''1104066020002''"] no r1 ok ex_heat c3 rd pd bad
  show ?thesis by simp
qed

text \<open>
  C10. When \<open>b\<close> is the first boundary record, in the order of the boundary set,
  that carries the tract code of a population record (there may be more after it), the
  lookup returns the centroid of \<open>b\<close>, and in each of the three modes the element
  built for the record (its marker, its heat point, its point in every hourly layer
  whose frame holds the record) lies at that centroid.
\<close>

theorem first_matching_boundary_gives_the_centroid:
  assumes "''OA_CD'' \<in> set (gcolumns gdf)"
    and "map_of r ''OA_CD'' = Some T"
    and "find (\<lambda>b. map_of (props b) ''OA_CD'' = Some T) (grows gdf) = Some b"
  shows "(''OA_CD'' \<in> set cols \<longrightarrow>
        tract_centroid centroid gdf cols r = Inr (centroid (geometry b))) \<and>
     (point_markers centroid gdf df = Inr ms \<longrightarrow>
        (\<forall>i<length (rows df). rows df ! i = r \<longrightarrow>
           location (ms ! i) = (pt_y (centroid (geometry b)), pt_x (centroid (geometry b))))) \<and>
     (heat_data centroid gdf df = Inr pts \<longrightarrow>
        (\<forall>i<length (rows df). rows df ! i = r \<longrightarrow>
           (\<exists>weight. pts ! i = (pt_y (centroid (geometry b)), pt_x (centroid (geometry b)), weight)))) \<and>
     (build_overlay API_KEY http_get now centroid gdf date_str TimeHeat df w = (Inr ov, w') \<longrightarrow>
        (\<exists>hm. ov = HeatMapWithTime hm \<and>
           (\<forall>h<24. \<exists>df_h. fst (fetch_data_cached API_KEY http_get now date_str (fmt_02d h) w) = Inr df_h \<and>
              length (layers hm ! h) = length (rows df_h) \<and>
              (\<forall>i<length (rows df_h). rows df_h ! i = r \<longrightarrow>
                 (\<exists>weight. layers hm ! h ! i =
                    (pt_y (centroid (geometry b)), pt_x (centroid (geometry b)), weight))))))"
proof -
  have t: "tract_centroid centroid gdf cs r = Inr (centroid (geometry b))" if "''OA_CD'' \<in> set cs" for cs
    using tract_centroid_find [OF assms(1) that assms(2), of centroid] assms(3) by simp
  have t': "p = centroid (geometry b)" if "tract_centroid centroid gdf cs r = Inr p" for cs p
    using t [of cs] that tract_centroid_Inr_cols [OF that] by simp
  have heat: "\<forall>i<length (rows d). rows d ! i = r \<longrightarrow>
           (\<exists>weight. ps ! i = (pt_y (centroid (geometry b)), pt_x (centroid (geometry b)), weight))"
    if "heat_data centroid gdf d = Inr ps" for d ps
  proof (intro allI impI)
    fix i assume "i < length (rows d)" "rows d ! i = r"
    with for_each_nth [OF that [unfolded heat_data_def]]
    have "heat_row centroid gdf (columns d) r = Inr (ps ! i)" by auto
    then show "\<exists>weight. ps ! i = (pt_y (centroid (geometry b)), pt_x (centroid (geometry b)), weight)"
      unfolding heat_row_Inr using t' by blast
  qed
  have pm: "\<forall>i<length (rows df). rows df ! i = r \<longrightarrow>
           location (ms ! i) = (pt_y (centroid (geometry b)), pt_x (centroid (geometry b)))"
    if "point_markers centroid gdf df = Inr ms"
  proof (intro allI impI)
    fix i assume "i < length (rows df)" "rows df ! i = r"
    with for_each_nth [OF that [unfolded point_markers_def]]
    have "marker_row centroid gdf (columns df) r = Inr (ms ! i)" by auto
    then show "location (ms ! i) = (pt_y (centroid (geometry b)), pt_x (centroid (geometry b)))"
      unfolding marker_row_Inr using t' by auto
  qed
  have th: "\<exists>hm. ov = HeatMapWithTime hm \<and>
           (\<forall>h<24. \<exists>df_h. fst (fetch_data_cached API_KEY http_get now date_str (fmt_02d h) w) = Inr df_h \<and>
              length (layers hm ! h) = length (rows df_h) \<and>
              (\<forall>i<length (rows df_h). rows df_h ! i = r \<longrightarrow>
                 (\<exists>weight. layers hm ! h ! i =
                    (pt_y (centroid (geometry b)), pt_x (centroid (geometry b)), weight))))"
    if "build_overlay API_KEY http_get now centroid gdf date_str TimeHeat df w = (Inr ov, w')"
  proof -
    from time_heat_layers [OF that] obtain hm where hm: "ov = HeatMapWithTime hm"
      and each: "\<forall>h<24. \<exists>df_h. fst (fetch_data_cached API_KEY http_get now date_str (fmt_02d h) w) = Inr df_h \<and>
        heat_data centroid gdf df_h = Inr (layers hm ! h)" by blast
    have "\<exists>df_h. fst (fetch_data_cached API_KEY http_get now date_str (fmt_02d h) w) = Inr df_h \<and>
              length (layers hm ! h) = length (rows df_h) \<and>
              (\<forall>i<length (rows df_h). rows df_h ! i = r \<longrightarrow>
                 (\<exists>weight. layers hm ! h ! i =
                    (pt_y (centroid (geometry b)), pt_x (centroid (geometry b)), weight)))"
      if "h < 24" for h
    proof -
      from each that obtain df_h where
        f: "fst (fetch_data_cached API_KEY http_get now date_str (fmt_02d h) w) = Inr df_h"
        and l: "heat_data centroid gdf df_h = Inr (layers hm ! h)" by blast
      from for_each_nth [OF l [unfolded heat_data_def]] have "length (layers hm ! h) = length (rows df_h)"
        by simp
      with f heat [OF l] show ?thesis by blast
    qed
    with hm show ?thesis by blast
  qed
  from t pm heat th show ?thesis by blast
qed

lemma ex_time_heat:
  "fst (build_overlay ''KEY'' ex_http 0 ex_centroid ex_gdf ''20250905'' TimeHeat ex_df ex_world) =
     Inr (HeatMapWithTime
       \<lparr>layers = replicate 24 [(101, 1, 120), (103, 3, 500)],
        index = [''00'', ''01'', ''02'', ''03'', ''04'', ''05'', ''06'', ''07'', ''08'', ''09'', ''10'', ''11'',
   ''12'', ''13'', ''14'', ''15'', ''16'', ''17'', ''18'', ''19'', ''20'', ''21'', ''22'', ''23''],
        auto_play = False, max_opacity = 0.8\<rparr>)"
proof -
  have all: "\<forall>h \<in> set [0..<24]. \<exists>df_h layer.
      fst (fetch_data_cached ''KEY'' ex_http 0 ''20250905'' (fmt_02d h) ex_world) = Inr df_h \<and>
      heat_data ex_centroid ex_gdf df_h = Inr layer"
    by (simp add: ex_fetch_cached ex_heat)
  from loop_total [OF distinct_hours all, of "[]"] obtain all_heat w' where
    loop: "time_heat_loop ''KEY'' ex_http 0 ex_centroid ex_gdf ''20250905'' [0..<24] [] ex_world =
      (Inr all_heat, w')" by blast
  from loop_Inr [OF distinct_hours loop] have len: "length all_heat = 24"
    and each: "\<forall>i<24. \<exists>df. fst (fetch_data_cached ''KEY'' ex_http 0 ''20250905''
        (fmt_02d ([0..<24] ! i)) ex_world) = Inr df \<and> heat_data ex_centroid ex_gdf df = Inr (all_heat ! i)"
    by auto
  have "all_heat ! i = [(101, 1, 120), (103, 3, 500)]" if "i < 24" for i
    using each that by (auto simp: ex_fetch_cached ex_heat)
  with len have "all_heat = replicate 24 [(101, 1, 120), (103, 3, 500)]"
    by (simp add: list_eq_iff_nth_eq)
  with loop show ?thesis
    by (simp add: build_overlay_def index_literal)
qed

theorem first_matching_boundary_gives_the_centroid_witness:
  "''OA_CD'' \<in> set (gcolumns ex_gdf) \<and>
   map_of (ex_row ''1104065010001'' ''120'') ''OA_CD'' = Some ''1104065010001'' \<and>
   filter (\<lambda>b. map_of (props b) ''OA_CD'' = Some ''1104065010001'') (grows ex_gdf) =
     [\<lparr>props = [(''OA_CD'', ''1104065010001'')], geometry = 1\<rparr>,
      \<lparr>props = [(''OA_CD'', ''1104065010001'')], geometry = 2\<rparr>] \<and>
   find (\<lambda>b. map_of (props b) ''OA_CD'' = Some ''1104065010001'') (grows ex_gdf) =
     Some \<lparr>props = [(''OA_CD'', ''1104065010001'')], geometry = 1\<rparr> \<and>
   rows ex_df ! 0 = ex_row ''1104065010001'' ''120'' \<and>
   tract_centroid ex_centroid ex_gdf (columns ex_df) (ex_row ''1104065010001'' ''120'') =
     Inr (ex_centroid 1) \<and>
   (\<exists>ms. point_markers ex_centroid ex_gdf ex_df = Inr ms \<and>
      location (ms ! 0) = (pt_y (ex_centroid 1), pt_x (ex_centroid 1))) \<and>
   (\<exists>pts weight. heat_data ex_centroid ex_gdf ex_df = Inr pts \<and>
      pts ! 0 = (pt_y (ex_centroid 1), pt_x (ex_centroid 1), weight)) \<and>
   (\<exists>hm weight. fst (build_overlay ''KEY'' ex_http 0 ex_centroid ex_gdf ''20250905'' TimeHeat ex_df ex_world) =
        Inr (HeatMapWithTime hm) \<and>
      fst (fetch_data_cached ''KEY'' ex_http 0 ''20250905'' (fmt_02d 7) ex_world) = Inr ex_df \<and>
      layers hm ! 7 ! 0 = (pt_y (ex_centroid 1), pt_x (ex_centroid 1), weight))"
proof -
  let ?r = "ex_row ''1104065010001'' ''120''"
  let ?b = "\<lparr>props = [(''OA_CD'', ''1104065010001'')], geometry = 1::nat\<rparr>"
  let ?hm = "\<lparr>layers = replicate 24 [(101, 1, 120), (103, 3, 500)],
        index = [''00'', ''01'', ''02'', ''03'', ''04'', ''05'', ''06'', ''07'', ''08'', ''09'', ''10'', ''11'',
   ''12'', ''13'', ''14'', ''15'', ''16'', ''17'', ''18'', ''19'', ''20'', ''21'', ''22'', ''23''],
        auto_play = False, max_opacity = 0.8\<rparr>"
  have a: "''OA_CD'' \<in> set (gcolumns ex_gdf)"
    "map_of ?r ''OA_CD'' = Some ''1104065010001''"
    "find (\<lambda>b. map_of (props b) ''OA_CD'' = Some ''1104065010001'') (grows ex_gdf) = Some ?b"
    by (simp_all add: ex_gdf_def ex_row_def)
  have f: "filter (\<lambda>b. map_of (props b) ''OA_CD'' = Some ''1104065010001'') (grows ex_gdf) =
     [\<lparr>props = [(''OA_CD'', ''1104065010001'')], geometry = 1\<rparr>,
      \<lparr>props = [(''OA_CD'', ''1104065010001'')], geometry = 2\<rparr>]"
    by (simp add: ex_gdf_def)
  have r0: "rows ex_df ! 0 = ?r" "0 < length (rows ex_df)" "''OA_CD'' \<in> set (columns ex_df)"
    by (simp_all add: ex_df_def)
  have ov: "build_overlay ''KEY'' ex_http 0 ex_centroid ex_gdf ''20250905'' TimeHeat ex_df ex_world =
      (Inr (HeatMapWithTime ?hm),
       snd (build_overlay ''KEY'' ex_http 0 ex_centroid ex_gdf ''20250905'' TimeHeat ex_df ex_world))"
    using ex_time_heat by (metis prod.collapse)
  have c7: "fst (fetch_data_cached ''KEY'' ex_http 0 ''20250905'' (fmt_02d 7) ex_world) = Inr ex_df"
    by (simp add: ex_fetch_cached)
  note t = first_matching_boundary_gives_the_centroid [OF a,
      of "columns ex_df" ex_centroid ex_df
         "[\<lparr>location = (101, 1), radius = 3, popup = (''1104065010001'', ''120'')\<rparr>,
           \<lparr>location = (103, 3), radius = 10, popup = (''1104066020002'', ''500'')\<rparr>]"
         "[(101, 1, 120), (103, 3, 500)]"
         "''KEY''" ex_http 0 "''20250905''" ex_world "HeatMapWithTime ?hm"
         "snd (build_overlay ''KEY'' ex_http 0 ex_centroid ex_gdf ''20250905'' TimeHeat ex_df ex_world)"]
  from t r0 have t1: "tract_centroid ex_centroid ex_gdf (columns ex_df) ?r = Inr (ex_centroid 1)"
    by simp
  from t ex_markers r0 have t2: "\<exists>ms. point_markers ex_centroid ex_gdf ex_df = Inr ms \<and>
      location (ms ! 0) = (pt_y (ex_centroid 1), pt_x (ex_centroid 1))"
    by auto
  from t ex_heat r0 have t3: "\<exists>pts weight. heat_data ex_centroid ex_gdf ex_df = Inr pts \<and>
      pts ! 0 = (pt_y (ex_centroid 1), pt_x (ex_centroid 1), weight)"
    by auto
  from t ov have "\<forall>h<24. \<exists>df_h. fst (fetch_data_cached ''KEY'' ex_http 0 ''20250905'' (fmt_02d h) ex_world) = Inr df_h \<and>
              length (layers ?hm ! h) = length (rows df_h) \<and>
              (\<forall>i<length (rows df_h). rows df_h ! i = ?r \<longrightarrow>
                 (\<exists>weight. layers ?hm ! h ! i =
                    (pt_y (ex_centroid (geometry ?b)), pt_x (ex_centroid (geometry ?b)), weight)))"
    by simp
  then have "\<exists>df_h. fst (fetch_data_cached ''KEY'' ex_http 0 ''20250905'' (fmt_02d 7) ex_world) = Inr df_h \<and>
              (\<forall>i<length (rows df_h). rows df_h ! i = ?r \<longrightarrow>
                 (\<exists>weight. layers ?hm ! 7 ! i =
                    (pt_y (ex_centroid (geometry ?b)), pt_x (ex_centroid (geometry ?b)), weight)))"
    by (metis (no_types, lifting) numeral_less_iff semiring_norm(76,79,81) less_numeral_extra(1) numeral_One)
  with c7 r0 have "\<exists>weight. layers ?hm ! 7 ! 0 = (pt_y (ex_centroid 1), pt_x (ex_centroid 1), weight)"
    by auto
  with ov c7 have t4: "\<exists>hm weight. fst (build_overlay ''KEY'' ex_http 0 ex_centroid ex_gdf ''20250905'' TimeHeat ex_df ex_world) =
        Inr (HeatMapWithTime hm) \<and>
      fst (fetch_data_cached ''KEY'' ex_http 0 ''20250905'' (fmt_02d 7) ex_world) = Inr ex_df \<and>
      layers hm ! 7 ! 0 = (pt_y (ex_centroid 1), pt_x (ex_centroid 1), weight)"
    by (metis fst_conv)
  from a f r0 t1 t2 t3 t4 show ?thesis by simp
qed
text \<open>
  C6. Whenever the time heatmap is produced it has exactly 24 layers and the index
  "00", "01", ..., "23" in this order; entry \<open>h\<close> of the index is the two-digit
  form of hour \<open>h\<close>, and layer \<open>h\<close> is the join of what the fetcher returns for
  that hour, each hour being fetched by its own call whose result does not depend on
  the calls for the other hours; \<open>auto_play\<close> is off. And it is produced whenever
  the fetch and the join succeed for each of the 24 hours.
\<close>

theorem time_heatmap_has_24_hourly_layers:
  "(build_overlay API_KEY http_get now centroid gdf date_str TimeHeat df w = (Inr ov, w') \<longrightarrow>
      (\<exists>hm. ov = HeatMapWithTime hm \<and> length (layers hm) = 24 \<and>
         index hm =
           [''00'', ''01'', ''02'', ''03'', ''04'', ''05'', ''06'', ''07'', ''08'', ''09'', ''10'', ''11'',
            ''12'', ''13'', ''14'', ''15'', ''16'', ''17'', ''18'', ''19'', ''20'', ''21'', ''22'', ''23''] \<and>
         \<not> auto_play hm \<and>
         (\<forall>h<24. index hm ! h = fmt_02d h \<and>
            (\<exists>df_h. fst (fetch_data_cached API_KEY http_get now date_str (fmt_02d h) w) = Inr df_h \<and>
               heat_data centroid gdf df_h = Inr (layers hm ! h))))) \<and>
   ((\<forall>h<24. \<exists>df_h layer.
        fst (fetch_data_cached API_KEY http_get now date_str (fmt_02d h) w) = Inr df_h \<and>
        heat_data centroid gdf df_h = Inr layer) \<longrightarrow>
      (\<exists>ov w'. build_overlay API_KEY http_get now centroid gdf date_str TimeHeat df w = (Inr ov, w')))"
proof (intro conjI impI)
  assume "build_overlay API_KEY http_get now centroid gdf date_str TimeHeat df w = (Inr ov, w')"
  from time_heat_layers [OF this] obtain hm where hm: "ov = HeatMapWithTime hm" "length (layers hm) = 24"
    "index hm = map fmt_02d [0..<24]" "\<not> auto_play hm"
    and each: "\<forall>h<24. \<exists>df_h. fst (fetch_data_cached API_KEY http_get now date_str (fmt_02d h) w) = Inr df_h \<and>
        heat_data centroid gdf df_h = Inr (layers hm ! h)" by blast
  have "index hm ! h = fmt_02d h" if "h < 24" for h
    using that hm(3) by (metis add_0 length_upt minus_nat.diff_0 nth_map nth_upt)
  with hm each index_literal show "\<exists>hm. ov = HeatMapWithTime hm \<and> length (layers hm) = 24 \<and>
         index hm =
           [''00'', ''01'', ''02'', ''03'', ''04'', ''05'', ''06'', ''07'', ''08'', ''09'', ''10'', ''11'',
            ''12'', ''13'', ''14'', ''15'', ''16'', ''17'', ''18'', ''19'', ''20'', ''21'', ''22'', ''23''] \<and>
         \<not> auto_play hm \<and>
         (\<forall>h<24. index hm ! h = fmt_02d h \<and>
            (\<exists>df_h. fst (fetch_data_cached API_KEY http_get now date_str (fmt_02d h) w) = Inr df_h \<and>
               heat_data centroid gdf df_h = Inr (layers hm ! h)))"
    by auto
next
  assume "\<forall>h<24. \<exists>df_h layer.
        fst (fetch_data_cached API_KEY http_get now date_str (fmt_02d h) w) = Inr df_h \<and>
        heat_data centroid gdf df_h = Inr layer"
  then have "\<forall>h \<in> set [0..<24]. \<exists>df_h layer.
        fst (fetch_data_cached API_KEY http_get now date_str (fmt_02d h) w) = Inr df_h \<and>
        heat_data centroid gdf df_h = Inr layer" by simp
  from loop_total [OF distinct_hours this, of "[]"]
  show "\<exists>ov w'. build_overlay API_KEY http_get now centroid gdf date_str TimeHeat df w = (Inr ov, w')"
    by (auto simp: build_overlay_def)
qed

theorem time_heatmap_has_24_hourly_layers_witness:
  "list_all (\<lambda>h. fst (fetch_data_cached ''KEY'' ex_http 0 ''20250905'' (fmt_02d h) ex_world) = Inr ex_df)
     [0..<24] \<and>
   heat_data ex_centroid ex_gdf ex_df = Inr [(101, 1, 120), (103, 3, 500)] \<and>
   (\<exists>hm. fst (build_overlay ''KEY'' ex_http 0 ex_centroid ex_gdf ''20250905'' TimeHeat ex_df ex_world) =
        Inr (HeatMapWithTime hm) \<and>
      length (layers hm) = 24 \<and>
      index hm =
        [''00'', ''01'', ''02'', ''03'', ''04'', ''05'', ''06'', ''07'', ''08'', ''09'', ''10'', ''11'',
         ''12'', ''13'', ''14'', ''15'', ''16'', ''17'', ''18'', ''19'', ''20'', ''21'', ''22'', ''23''] \<and>
      \<not> auto_play hm \<and>
      list_all (\<lambda>h. layers hm ! h = [(101, 1, 120), (103, 3, 500)]) [0..<24])"
proof -
  note T = time_heatmap_has_24_hourly_layers
    [where API_KEY = "''KEY''" and http_get = ex_http and now = 0 and centroid = ex_centroid
       and gdf = ex_gdf and date_str = "''20250905''" and df = ex_df and w = ex_world]
  have f: "fst (fetch_data_cached ''KEY'' ex_http 0 ''20250905'' (fmt_02d h) ex_world) = Inr ex_df" for h
    by (simp add: ex_fetch_cached)
  then have all: "\<forall>h<24. \<exists>df_h layer.
        fst (fetch_data_cached ''KEY'' ex_http 0 ''20250905'' (fmt_02d h) ex_world) = Inr df_h \<and>
        heat_data ex_centroid ex_gdf df_h = Inr layer"
    by (simp add: ex_heat)
  with T [THEN conjunct2] obtain ov w' where
    ov: "build_overlay ''KEY'' ex_http 0 ex_centroid ex_gdf ''20250905'' TimeHeat ex_df ex_world = (Inr ov, w')"
    by blast
  note T' = time_heatmap_has_24_hourly_layers
    [where API_KEY = "''KEY''" and http_get = ex_http and now = 0 and centroid = ex_centroid
       and gdf = ex_gdf and date_str = "''20250905''" and df = ex_df and w = ex_world
       and ov = ov and w' = w']
  from ov T' [THEN conjunct1] obtain hm where
    hm: "ov = HeatMapWithTime hm" "length (layers hm) = 24"
      "index hm =
        [''00'', ''01'', ''02'', ''03'', ''04'', ''05'', ''06'', ''07'', ''08'', ''09'', ''10'', ''11'',
         ''12'', ''13'', ''14'', ''15'', ''16'', ''17'', ''18'', ''19'', ''20'', ''21'', ''22'', ''23'']"
      "\<not> auto_play hm"
    and each: "\<forall>h<24. index hm ! h = fmt_02d h \<and>
            (\<exists>df_h. fst (fetch_data_cached ''KEY'' ex_http 0 ''20250905'' (fmt_02d h) ex_world) = Inr df_h \<and>
               heat_data ex_centroid ex_gdf df_h = Inr (layers hm ! h))"
    by blast
  from each have "layers hm ! h = [(101, 1, 120), (103, 3, 500)]" if "h < 24" for h
    using that by (auto simp: f ex_heat)
  then have "list_all (\<lambda>h. layers hm ! h = [(101, 1, 120), (103, 3, 500)]) [0..<24]"
    by (simp add: list_all_iff)
  with ov hm have "\<exists>hm. fst (build_overlay ''KEY'' ex_http 0 ex_centroid ex_gdf ''20250905'' TimeHeat ex_df ex_world) =
        Inr (HeatMapWithTime hm) \<and>
      length (layers hm) = 24 \<and>
      index hm =
        [''00'', ''01'', ''02'', ''03'', ''04'', ''05'', ''06'', ''07'', ''08'', ''09'', ''10'', ''11'',
         ''12'', ''13'', ''14'', ''15'', ''16'', ''17'', ''18'', ''19'', ''20'', ''21'', ''22'', ''23''] \<and>
      \<not> auto_play hm \<and>
      list_all (\<lambda>h. layers hm ! h = [(101, 1, 120), (103, 3, 500)]) [0..<24]"
    by auto
  moreover have "list_all (\<lambda>h. fst (fetch_data_cached ''KEY'' ex_http 0 ''20250905'' (fmt_02d h) ex_world) = Inr ex_df)
     [0..<24]"
    by (simp add: list_all_iff f)
  ultimately show ?thesis using ex_heat by blast
qed




subsection \<open>The animated view against a service that is down for one hour\<close>

text \<open>
  The run is evaluated in full: hour 14 is fetched for the page, hours 00 to 06 are
  fetched and cached for the animation, the request for hour 07 is answered with status
  503, and the run ends there with nothing on the page.
\<close>

lemma ex_run_down:
  "run ex_read_file ex_centroid ex_http_down_at_07 0 (ex_inputs TimeHeat (Some ex_upload)) ex_world =
     (\<lparr>elements = [], ending = Raised (HTTPError 503)\<rparr>,
      \<lparr>cache = map (\<lambda>h. ((''20250905'', h), (0, ex_df)))
                 [''06'', ''05'', ''04'', ''03'', ''02'', ''01'', ''00'', ''14''],
       requests = map (fetch_url ''KEY'' ''20250905'')
                 [''14'', ''00'', ''01'', ''02'', ''03'', ''04'', ''05'', ''06'', ''07'']\<rparr>)"
  by code_simp

end
